theory Spec2Isabelle
  imports Complex_Main
begin

section \<open>fast-mailer: a shallow embedding of \<^verbatim>\<open>src/mailer/mailer.ts\<close>\<close>

text \<open>
  The class \<^verbatim>\<open>FastMailer\<close> is modelled by explicit state passing. JavaScript strings are
  \<^typ>\<open>string\<close> (a sequence of bytes), timestamps in milliseconds and the integer counters
  of the per-recipient limiter are \<^typ>\<open>int\<close>, counters that are only ever incremented from
  zero are \<^typ>\<open>nat\<close>, and the derived timing values (seconds, averages) are exact
  rationals: the rounding of IEEE doubles is not represented. An exception is a value of the
  record \<open>error\<close>; the functions of Node's standard library and everything the outside world
  decides (the clock, the network, the file system, the random generator) are fields of the
  record \<open>env\<close>.
\<close>

subsection \<open>Strings\<close>

definition CR :: char where "CR = CHR 0x0D"
definition LF :: char where "LF = CHR 0x0A"
definition TAB :: char where "TAB = CHR 0x09"
definition VT :: char where "VT = CHR 0x0B"
definition FF :: char where "FF = CHR 0x0C"

definition CRLF :: string where "CRLF = [CR, LF]"

text \<open>\<^verbatim>\<open>String.prototype.startsWith\<close>, \<^verbatim>\<open>includes\<close> and \<^verbatim>\<open>endsWith\<close>.\<close>

fun startsWith :: "string \<Rightarrow> string \<Rightarrow> bool" where
  "startsWith s [] = True"
| "startsWith [] (p # ps) = False"
| "startsWith (c # cs) (p # ps) = (c = p \<and> startsWith cs ps)"

fun includesStr :: "string \<Rightarrow> string \<Rightarrow> bool" where
  "includesStr [] p = (p = [])"
| "includesStr (c # cs) p = (startsWith (c # cs) p \<or> includesStr cs p)"

definition endsWith :: "string \<Rightarrow> string \<Rightarrow> bool" where
  "endsWith s p = startsWith (rev s) (rev p)"

text \<open>\<^verbatim>\<open>Array.prototype.join\<close>.\<close>

fun join :: "string \<Rightarrow> string list \<Rightarrow> string" where
  "join sep [] = []"
| "join sep [x] = x"
| "join sep (x # y # ys) = x @ sep @ join sep (y # ys)"

text \<open>
  The operators \<^verbatim>\<open>||\<close> and \<^verbatim>\<open>??\<close> applied to an optional configuration value and a
  default: \<^verbatim>\<open>||\<close> also replaces the falsy values \<^verbatim>\<open>0\<close> and \<^verbatim>\<open>""\<close>, \<^verbatim>\<open>??\<close> only a missing
  one.
\<close>

definition numOr :: "int option \<Rightarrow> int \<Rightarrow> int" where
  "numOr v d = (case v of None \<Rightarrow> d | Some n \<Rightarrow> if n = 0 then d else n)"

definition strOr :: "string option \<Rightarrow> string \<Rightarrow> string" where
  "strOr v d = (case v of None \<Rightarrow> d | Some s \<Rightarrow> if s = [] then d else s)"

definition nullish :: "'a option \<Rightarrow> 'a \<Rightarrow> 'a" where
  "nullish v d = (case v of None \<Rightarrow> d | Some x \<Rightarrow> x)"

definition truthyStr :: "string option \<Rightarrow> bool" where
  "truthyStr v = (case v of None \<Rightarrow> False | Some s \<Rightarrow> s \<noteq> [])"

subsection \<open>Regular expressions\<close>

text \<open>
  The fragment of JavaScript regular expressions that \<^verbatim>\<open>validateEmail\<close> uses: character
  classes made of ranges, concatenation, alternation (for \<^verbatim>\<open>?\<close>) and iteration. The pattern
  is anchored at both ends and has no flags, so \<^verbatim>\<open>test\<close> decides membership of the whole
  string, which \<open>matches\<close> computes with derivatives.
\<close>

datatype rx = Void | Eps | Cls "(char \<times> char) list" | Cat rx rx | Alt rx rx | Star rx

definition inRange :: "char \<Rightarrow> char \<times> char \<Rightarrow> bool" where
  "inRange c r = ((of_char (fst r) :: nat) \<le> of_char c \<and> (of_char c :: nat) \<le> of_char (snd r))"

definition inClass :: "(char \<times> char) list \<Rightarrow> char \<Rightarrow> bool" where
  "inClass rs c = list_ex (inRange c) rs"

fun nullable :: "rx \<Rightarrow> bool" where
  "nullable Void = False"
| "nullable Eps = True"
| "nullable (Cls rs) = False"
| "nullable (Cat r s) = (nullable r \<and> nullable s)"
| "nullable (Alt r s) = (nullable r \<or> nullable s)"
| "nullable (Star r) = True"

fun deriv :: "char \<Rightarrow> rx \<Rightarrow> rx" where
  "deriv c Void = Void"
| "deriv c Eps = Void"
| "deriv c (Cls rs) = (if inClass rs c then Eps else Void)"
| "deriv c (Cat r s) =
     (if nullable r then Alt (Cat (deriv c r) s) (deriv c s) else Cat (deriv c r) s)"
| "deriv c (Alt r s) = Alt (deriv c r) (deriv c s)"
| "deriv c (Star r) = Cat (deriv c r) (Star r)"

fun matches :: "rx \<Rightarrow> string \<Rightarrow> bool" where
  "matches r [] = nullable r"
| "matches r (c # cs) = matches (deriv c r) cs"



definition Opt :: "rx \<Rightarrow> rx" where
  "Opt r = Alt Eps r"

definition Plus :: "rx \<Rightarrow> rx" where
  "Plus r = Cat r (Star r)"

definition lit :: "string \<Rightarrow> (char \<times> char) list" where
  "lit s = map (\<lambda>c. (c, c)) s"

subsection \<open>The address validator\<close>

text \<open>\<^verbatim>\<open>[a-zA-Z0-9]\<close>\<close>

definition alnum :: "(char \<times> char) list" where
  "alnum = [(CHR ''a'', CHR ''z''), (CHR ''A'', CHR ''Z''), (CHR ''0'', CHR ''9'')]"

text \<open>\<^verbatim>\<open>[a-zA-Z0-9!#$%&'*+\-/=?^_`{|}~]\<close>; the apostrophe is 0x27 and the backquote 0x60.\<close>

definition atext :: "(char \<times> char) list" where
  "atext = alnum @ lit ''!#$%&'' @ [(CHR 0x27, CHR 0x27)] @ lit ''*+-/=?^_''
             @ [(CHR 0x60, CHR 0x60)] @ lit ''{|}~''"

text \<open>\<^verbatim>\<open>[a-zA-Z0-9](?:[a-zA-Z0-9!#$%&'*+\-/=?^_`{|}~]*[a-zA-Z0-9])?\<close>\<close>

definition localAtom :: rx where
  "localAtom = Cat (Cls alnum) (Opt (Cat (Star (Cls atext)) (Cls alnum)))"

text \<open>\<^verbatim>\<open>[a-zA-Z0-9](?:[a-zA-Z0-9-]*[a-zA-Z0-9])?\<close>\<close>

definition domainLabel :: rx where
  "domainLabel = Cat (Cls alnum) (Opt (Cat (Star (Cls (alnum @ lit ''-''))) (Cls alnum)))"

text \<open>
  \<^verbatim>\<open>^ atom (?:\. atom)* @ label (?:\. label)+ $\<close>
\<close>

definition emailRegex :: rx where
  "emailRegex =
     Cat localAtom
    (Cat (Star (Cat (Cls (lit ''.'')) localAtom))
    (Cat (Cls (lit ''@''))
    (Cat domainLabel
         (Plus (Cat (Cls (lit ''.'')) domainLabel)))))"

definition validateEmail :: "string \<Rightarrow> bool" where
  "validateEmail email =
     (if email = [] \<or> includesStr email '' '' \<or> includesStr email ''..''
         \<or> startsWith email ''.'' \<or> endsWith email ''.'' \<or> includesStr email ''@@''
      then False
      else matches emailRegex email)"

subsection \<open>The header sanitizer\<close>

text \<open>\<^verbatim>\<open>value.replace(/[\r\n\t\v\f]/g, '')\<close>\<close>

definition sanitizeHeader :: "string \<Rightarrow> string" where
  "sanitizeHeader v = filter (\<lambda>c. c \<notin> {CR, LF, TAB, VT, FF}) v"

subsection \<open>Payloads\<close>

text \<open>
  The values that the mailer puts into log payloads and error contexts. An object is an
  association list in insertion order; \<open>setProp\<close> is the assignment \<^verbatim>\<open>o[k] = v\<close>, which keeps
  the position of a key that is already there, and \<open>spread\<close> is \<^verbatim>\<open>{...base, ...src}\<close>.
\<close>

datatype json = JNull | JBool bool | JNum int | JStr string | JArr "json list"
  | JObj "(string \<times> json) list"

type_synonym obj = "(string \<times> json) list"

fun truthy :: "json \<Rightarrow> bool" where
  "truthy JNull = False"
| "truthy (JBool b) = b"
| "truthy (JNum n) = (n \<noteq> 0)"
| "truthy (JStr s) = (s \<noteq> [])"
| "truthy (JArr xs) = True"
| "truthy (JObj kvs) = True"

fun setProp :: "('k \<times> 'v) list \<Rightarrow> 'k \<Rightarrow> 'v \<Rightarrow> ('k \<times> 'v) list" where
  "setProp [] k v = [(k, v)]"
| "setProp ((k', v') # rest) k v =
     (if k' = k then (k, v) # rest else (k', v') # setProp rest k v)"

definition spread :: "obj \<Rightarrow> obj \<Rightarrow> obj" where
  "spread base src = foldl (\<lambda>acc kv. setProp acc (fst kv) (snd kv)) base src"

text \<open>\<^verbatim>\<open>if (o[k])\<close>: a missing property is \<^verbatim>\<open>undefined\<close>, which is falsy.\<close>

definition truthyProp :: "obj \<Rightarrow> string \<Rightarrow> bool" where
  "truthyProp ob k = (case map_of ob k of None \<Rightarrow> False | Some v \<Rightarrow> truthy v)"

record error =
  code :: string
  message :: string
  etype :: string
  ctx :: obj

text \<open>
  \<open>etype\<close> is \<^verbatim>\<open>details.type\<close> and \<open>ctx\<close> is \<^verbatim>\<open>details.context\<close>; \<^verbatim>\<open>details.timestamp\<close>, a
  rendering of the wall clock, is left out.
\<close>

subsection \<open>The environment\<close>

datatype conn_outcome = Connected | TimedOut | ConnError "string option" string

datatype cmd_outcome = Reply string | WriteFailed | NoReply

text \<open>
  What the mailer does not decide. The first group is Node's library, taken as given (and as
  total: the \<^verbatim>\<open>RangeError\<close> of \<^verbatim>\<open>toISOString\<close> on a time out of range is not represented). The
  second group is the behaviour of the outside world, one answer per call: \<open>clock k\<close> is the
  value of the \<open>k\<close>-th reading of the clock, \<open>connects k\<close> how the \<open>k\<close>-th socket that
  \<^verbatim>\<open>createConnection\<close> opens ends up, \<open>replies k\<close> what happens to the \<open>k\<close>-th command written,
  \<open>randomHex k\<close> the \<open>k\<close>-th \<^verbatim>\<open>crypto.randomBytes(16).toString('hex')\<close>, and \<open>appendOk k\<close>
  whether the \<open>k\<close>-th \<^verbatim>\<open>fs.appendFileSync\<close> succeeds. \<open>mimeTypes\<close> is the table of the
  repository's MIME-type module.
\<close>

record env =
  JSON_stringify :: "json \<Rightarrow> string"
  String_of :: "json \<Rightarrow> string"
  toISOString :: "int \<Rightarrow> string"
  toUpperCase :: "string \<Rightarrow> string"
  toLowerCase :: "string \<Rightarrow> string"
  base64 :: "string \<Rightarrow> string"
  path_normalize :: "string \<Rightarrow> string"
  path_isAbsolute :: "string \<Rightarrow> bool"
  path_join_cwd :: "string \<Rightarrow> string"
  path_basename :: "string \<Rightarrow> string"
  path_extname :: "string \<Rightarrow> string"
  mimeTypes :: "(string \<times> string) list"
  fs_existsSync :: "string \<Rightarrow> bool"
  fs_readable :: "string \<Rightarrow> bool"
  fs_readFileSync :: "string \<Rightarrow> string option"
  clock :: "nat \<Rightarrow> int"
  connects :: "nat \<Rightarrow> conn_outcome"
  replies :: "nat \<Rightarrow> cmd_outcome"
  randomHex :: "nat \<Rightarrow> string"
  appendOk :: "nat \<Rightarrow> bool"

subsection \<open>Configuration\<close>

text \<open>
  \<^verbatim>\<open>this.config\<close> after the constructor has filled in the defaults. The fields that the
  type \<^verbatim>\<open>MailerConfig\<close> declares optional stay optional, as the code reads them with
  \<^verbatim>\<open>||\<close> and \<^verbatim>\<open>??\<close> defaults. \<^verbatim>\<open>from\<close> is \<open>from_addr\<close>.
\<close>

record rate_config =
  perRecipient :: "bool option"
  burstLimit :: "int option"
  cooldownPeriod :: "int option"
  banDuration :: "int option"
  maxConsecutiveFailures :: "int option"
  failureCooldown :: "int option"
  maxRapidAttempts :: "int option"
  rapidPeriod :: "int option"

record log_config =
  level :: "string option"
  format :: "string option"
  customFields :: "string list option"
  destination :: "string option"

record config =
  host :: string
  port :: int
  secure :: "bool option"
  auth_user :: string
  auth_pass :: string
  from_addr :: string
  retryAttempts :: "int option"
  timeout :: "int option"
  keepAlive :: "bool option"
  poolSize :: "int option"
  rateLimiting :: rate_config
  logging :: log_config

subsection \<open>Per-recipient limiter state\<close>

record limits =
  count :: int
  lastReset :: int
  banned :: bool
  banExpiry :: int
  consecutiveFailures :: int
  lastFailure :: int
  rapidAttempts :: int
  lastAttempt :: int

subsection \<open>Metrics\<close>

datatype email_status = StatusNone | StatusSuccess | StatusFailure

datatype error_kind = Connection | Authentication | Rate_limit | Validation | Timeout
  | Attachment | Command | Unknown

record failure_record =
  f_recipient :: string
  f_subject :: string
  f_error :: error
  f_command :: string
  f_attempt :: nat

text \<open>
  \<^verbatim>\<open>email_send_duration_seconds\<close>. The histogram is keyed by the source's property names
  \<^verbatim>\<open>'0.1', '0.5', '1', '2', '5'\<close>, kept in the order of the object literal. JavaScript
  enumerates the keys \<^verbatim>\<open>1, 2, 5\<close> before \<^verbatim>\<open>0.1, 0.5\<close>; the loop over the buckets does the
  same to each key whatever the order, and nothing below depends on it.
\<close>

record duration =
  dsum :: rat
  dcount :: nat
  davg :: rat
  dmax :: rat
  dmin :: rat
  buckets :: "(string \<times> nat) list"

record rate_window =
  w_count :: nat
  remaining :: int
  reset_time :: int

record failure_details =
  last_error :: "failure_record option"
  error_count_by_recipient :: "(string \<times> nat) list"
  avg_failures_per_recipient :: rat

text \<open>
  \<open>email_send_rate\<close> is \<open>None\<close> when the division of the source is by zero (JavaScript's
  \<^verbatim>\<open>Infinity\<close>). \<^verbatim>\<open>most_common_errors\<close>, which nothing writes, is left out.
\<close>

record metrics =
  emails_total :: nat
  emails_successful :: nat
  emails_failed :: nat
  failed_emails :: "failure_record list"
  email_send_duration_seconds :: duration
  email_send_rate :: "rat option"
  last_email_status :: email_status
  last_email_timestamp :: int
  active_connections :: int
  connection_errors :: nat
  rate_limit_exceeded_total :: nat
  current_rate_limit_window :: rate_window
  errors_by_type :: "error_kind \<Rightarrow> nat"
  consecutive_failures :: nat
  last_error_timestamp :: "int option"
  banned_recipients_count :: int
  total_retry_attempts :: nat
  successful_retries :: nat
  failure_details :: failure_details

subsection \<open>The mailer and its surroundings\<close>

text \<open>
  The fields of the instance (\<^verbatim>\<open>socket\<close> and \<^verbatim>\<open>connectionPool\<close>, which no method reads or
  writes after construction, are left out), followed by the state of the outside world: the
  chunks appended to the log file, how many times the clock was read, how many sockets were
  opened, commands written, random strings drawn and appends attempted, how many sockets
  were ended, and the data written to sockets.
\<close>

record state =
  config :: config
  metrics :: metrics
  rateLimits :: "string \<Rightarrow> limits option"
  logFilePath :: "string option"
  logFile :: "string list"
  ticks :: nat
  socketsOpened :: nat
  commandsSent :: nat
  randomsDrawn :: nat
  appends :: nat
  socketsEnded :: nat
  wire :: "string list"

definition bump :: "error_kind \<Rightarrow> metrics \<Rightarrow> metrics" where
  "bump k m = m\<lparr>errors_by_type := (errors_by_type m)(k := errors_by_type m k + 1)\<rparr>"

subsection \<open>The structured logger\<close>

definition shouldLog :: "config \<Rightarrow> string \<Rightarrow> bool" where
  "shouldLog cfg lvl =
     (let configLevel = strOr (level (logging cfg)) ''info'' in
      if configLevel = ''debug'' then True
      else if configLevel = ''info'' then lvl = ''info''
      else if configLevel = ''warn'' then lvl = ''warn''
      else if configLevel = ''error'' then lvl = ''error''
      else False)"

definition sensitiveFields :: "string list" where
  "sensitiveFields = [''password'', ''auth'', ''token'', ''key'']"

text \<open>
  \<open>maskSensitiveData\<close> on an object payload (every caller passes an object literal, which
  is truthy, so the guard \<^verbatim>\<open>if (!data) return data\<close> does not fire).
\<close>

definition maskSensitiveData :: "obj \<Rightarrow> obj" where
  "maskSensitiveData data =
     foldl (\<lambda>masked field. if truthyProp masked field then setProp masked field (JStr ''********'')
                             else masked)
       data sensitiveFields"

text \<open>
  The entry that \<open>writeLog\<close> serializes in JSON format: timestamp and level, the masked
  payload spread over them, then the configured custom fields copied from the payload.
\<close>

definition logEntryOf :: "config \<Rightarrow> string \<Rightarrow> string \<Rightarrow> obj \<Rightarrow> obj" where
  "logEntryOf cfg ts lvl data =
     (let maskedData = maskSensitiveData data;
          logEntry = spread [(''timestamp'', JStr ts), (''level'', JStr lvl)] maskedData
      in case customFields (logging cfg) of
           None \<Rightarrow> logEntry
         | Some custom \<Rightarrow>
             foldl (\<lambda>entry field.
                      case map_of data field of
                        None \<Rightarrow> entry
                      | Some v \<Rightarrow> if truthy v then setProp entry field v else entry)
               logEntry custom)"

definition formatLog :: "env \<Rightarrow> config \<Rightarrow> string \<Rightarrow> string \<Rightarrow> obj \<Rightarrow> string" where
  "formatLog e cfg ts lvl data =
     (let logEntry = logEntryOf cfg ts lvl data in
      if format (logging cfg) = Some ''text''
      then ''['' @ (case map_of logEntry ''timestamp'' of
                      Some (JStr s) \<Rightarrow> s
                    | Some v \<Rightarrow> String_of e v
                    | None \<Rightarrow> ''undefined'')
             @ ''] '' @ toUpperCase e lvl @ '': ''
             @ JSON_stringify e (JObj (maskSensitiveData data)) @ [LF]
      else JSON_stringify e (JObj logEntry) @ [LF])"

text \<open>
  \<open>writeLog\<close>: nothing happens without a log file or when the level is filtered out;
  otherwise the clock is read for the timestamp and the formatted line is appended. A failing
  append is caught by the source and leaves the file as it was.
\<close>

definition writeLog :: "env \<Rightarrow> string \<Rightarrow> obj \<Rightarrow> state \<Rightarrow> state" where
  "writeLog e lvl data st =
     (if \<not> truthyStr (logFilePath st) \<or> \<not> shouldLog (config st) lvl then st
      else
        let ts = toISOString e (clock e (ticks st));
            formattedLog = formatLog e (config st) ts lvl data;
            st1 = st\<lparr>ticks := ticks st + 1, appends := appends st + 1\<rparr>
        in if appendOk e (appends st) then st1\<lparr>logFile := logFile st @ [formattedLog]\<rparr>
           else st1)"

subsection \<open>The rate-limit controller\<close>

definition newLimits :: "int \<Rightarrow> limits" where
  "newLimits now = \<lparr>count = 0, lastReset = now, banned = False, banExpiry = 0,
     consecutiveFailures = 0, lastFailure = 0, rapidAttempts = 0, lastAttempt = now\<rparr>"

definition rateLimitError :: "string \<Rightarrow> obj \<Rightarrow> error" where
  "rateLimitError msg c =
     \<lparr>code = ''ERATELIMIT'', message = msg, etype = ''rate_limit_error'', ctx = c\<rparr>"

definition putLimits :: "string \<Rightarrow> limits \<Rightarrow> state \<Rightarrow> state" where
  "putLimits recipient l st = st\<lparr>rateLimits := (rateLimits st)(recipient := Some l)\<rparr>"

text \<open>
  \<open>checkRateLimit e now recipient st\<close>, where \<open>now\<close> is the value of \<^verbatim>\<open>Date.now()\<close> read on
  entry. The result is the exception thrown, if any, and the state left behind: the source
  mutates the recipient's entry in place, so what it wrote before a \<^verbatim>\<open>throw\<close> stays.
\<close>

definition checkRateLimit :: "env \<Rightarrow> int \<Rightarrow> string \<Rightarrow> state \<Rightarrow> error option \<times> state" where
  "checkRateLimit e now recipient st =
    (let rl = rateLimiting (config st);
         l0 = (case rateLimits st recipient of Some l \<Rightarrow> l | None \<Rightarrow> newLimits now);
         rapidPeriod' = numOr (rapidPeriod rl) 10000;
         rapid = (now - lastAttempt l0 < rapidPeriod')
     in
     if rapid \<and> numOr (maxRapidAttempts rl) 10 \<le> rapidAttempts l0 + 1 then
       \<comment> \<open>too many rapid attempts: ban and throw\<close>
       (let l1 = l0\<lparr>rapidAttempts := rapidAttempts l0 + 1, banned := True,
                    banExpiry := now + numOr (banDuration rl) 7200000\<rparr>;
            m1 = (metrics st)\<lparr>banned_recipients_count :=
                    banned_recipients_count (metrics st) + 1\<rparr>;
            st1 = writeLog e ''debug''
                    [(''recipient'', JStr recipient), (''event'', JStr ''banned''),
                     (''reason'', JStr ''rapid_attempts''),
                     (''attempts'', JNum (rapidAttempts l1)), (''period'', JNum rapidPeriod'),
                     (''message'', JStr ''Too many rapid sending attempts'')]
                    ((putLimits recipient l1 st)\<lparr>metrics := m1\<rparr>)
        in (Some (rateLimitError ''Too many rapid sending attempts''
                    [(''recipient'', JStr recipient), (''attempts'', JNum (rapidAttempts l1)),
                     (''period'', JNum rapidPeriod')]),
            st1))
     else
       (let l1 = (if rapid then l0\<lparr>rapidAttempts := rapidAttempts l0 + 1\<rparr>
                  else l0\<lparr>rapidAttempts := 1\<rparr>)\<lparr>lastAttempt := now\<rparr>
        in
        if banned l1 \<and> now < banExpiry l1 then
          \<comment> \<open>currently banned: throw\<close>
          (let m1 = bump Rate_limit ((metrics st)\<lparr>last_email_status := StatusFailure\<rparr>);
               st1 = writeLog e ''debug''
                       [(''recipient'', JStr recipient), (''event'', JStr ''banned''),
                        (''banExpiry'', JStr (toISOString e (banExpiry l1))),
                        (''consecutiveFailures'', JNum (consecutiveFailures l1)),
                        (''message'', JStr ''Recipient is temporarily banned due to rate limit violations or consecutive failures'')]
                       ((putLimits recipient l1 st)\<lparr>metrics := m1\<rparr>)
           in (Some (rateLimitError
                       ''Recipient is temporarily banned due to rate limit violations or consecutive failures''
                       [(''recipient'', JStr recipient),
                        (''banExpiry'', JStr (toISOString e (banExpiry l1))),
                        (''consecutiveFailures'', JNum (consecutiveFailures l1))]),
               st1))
        else
          (let \<comment> \<open>an expired ban resets all limits\<close>
               l2 = (if banned l1
                     then l1\<lparr>banned := False, count := 0, lastReset := now,
                             consecutiveFailures := 0, rapidAttempts := 0\<rparr>
                     else l1);
               m2 = (if banned l1
                     then (metrics st)\<lparr>banned_recipients_count :=
                            banned_recipients_count (metrics st) - 1\<rparr>
                     else metrics st);
               tooMany = (nullish (maxConsecutiveFailures rl) 3 \<le> consecutiveFailures l2);
               failureCooldown' = nullish (failureCooldown rl) 300000
           in
           if tooMany \<and> now - lastFailure l2 < failureCooldown' then
             \<comment> \<open>too many consecutive failures: ban and throw\<close>
             (let l3 = l2\<lparr>banned := True,
                          banExpiry := now + nullish (banDuration rl) 7200000\<rparr>;
                  m3 = (bump Rate_limit (m2\<lparr>last_email_status := StatusFailure\<rparr>))
                         \<lparr>banned_recipients_count := banned_recipients_count m2 + 1\<rparr>;
                  st1 = writeLog e ''debug''
                          [(''recipient'', JStr recipient), (''event'', JStr ''banned''),
                           (''consecutiveFailures'', JNum (consecutiveFailures l3)),
                           (''failureCooldown'', JNum failureCooldown'),
                           (''message'', JStr ''Too many consecutive failures for recipient'')]
                          ((putLimits recipient l3 st)\<lparr>metrics := m3\<rparr>)
              in (Some (rateLimitError ''Too many consecutive failures for recipient''
                          [(''recipient'', JStr recipient),
                           (''consecutiveFailures'', JNum (consecutiveFailures l3)),
                           (''failureCooldown'', JNum failureCooldown')]),
                  st1))
           else
             (let l3 = (if tooMany then l2\<lparr>consecutiveFailures := 0\<rparr> else l2);
                  \<comment> \<open>reset the count when the cooldown period has passed\<close>
                  l4 = (if nullish (cooldownPeriod rl) 1000 < now - lastReset l3
                        then l3\<lparr>count := 0, lastReset := now\<rparr> else l3)
              in
              if nullish (burstLimit rl) 5 \<le> count l4 then
                \<comment> \<open>burst limit reached: throw\<close>
                (let m4 = bump Rate_limit
                            (m2\<lparr>rate_limit_exceeded_total := rate_limit_exceeded_total m2 + 1,
                                last_email_status := StatusFailure\<rparr>);
                     st1 = writeLog e ''debug''
                             [(''recipient'', JStr recipient), (''event'', JStr ''banned''),
                              (''burstLimit'', JNum (nullish (burstLimit rl) 5)),
                              (''cooldownPeriod'', JNum (nullish (cooldownPeriod rl) 1000)),
                              (''message'', JStr ''Rate limit exceeded for recipient'')]
                             ((putLimits recipient l4 st)\<lparr>metrics := m4\<rparr>)
                 in (Some (rateLimitError ''Rate limit exceeded for recipient''
                             [(''recipient'', JStr recipient),
                              (''burstLimit'', JNum (nullish (burstLimit rl) 5)),
                              (''cooldownPeriod'', JNum (nullish (cooldownPeriod rl) 1000))]),
                     st1))
              else
                (None, (putLimits recipient (l4\<lparr>count := count l4 + 1\<rparr>) st)
                         \<lparr>metrics := m2\<rparr>)))))"


subsection \<open>The metrics accumulator\<close>

text \<open>
  \<^verbatim>\<open>parseFloat\<close> on the decimal literals that name the histogram buckets: digits, then
  optionally a point and digits. Signs, exponents and leading blanks are not recognised;
  \<open>None\<close> is \<^verbatim>\<open>NaN\<close>, which compares false with everything.
\<close>

definition digitOf :: "char \<Rightarrow> nat option" where
  "digitOf c = (let n = (of_char c :: nat) in if 48 \<le> n \<and> n \<le> 57 then Some (n - 48) else None)"

fun takeDigits :: "string \<Rightarrow> nat list \<times> string" where
  "takeDigits [] = ([], [])"
| "takeDigits (c # cs) =
     (case digitOf c of
        None \<Rightarrow> ([], c # cs)
      | Some d \<Rightarrow> (d # fst (takeDigits cs), snd (takeDigits cs)))"

definition natOfDigits :: "nat list \<Rightarrow> nat" where
  "natOfDigits ds = foldl (\<lambda>a d. 10 * a + d) 0 ds"

definition parseFloat :: "string \<Rightarrow> rat option" where
  "parseFloat s =
     (let ip = fst (takeDigits s); rest = snd (takeDigits s) in
      case rest of
        [] \<Rightarrow> if ip = [] then None else Some (of_nat (natOfDigits ip))
      | c # fracPart \<Rightarrow>
          if c = CHR ''.'' then
            (let fp = fst (takeDigits fracPart) in
             if ip = [] \<and> fp = [] then None
             else Some (of_nat (natOfDigits ip) + of_nat (natOfDigits fp) / 10 ^ length fp))
          else if ip = [] then None else Some (of_nat (natOfDigits ip)))"

definition leqFloat :: "rat \<Rightarrow> rat option \<Rightarrow> bool" where
  "leqFloat s b = (case b of None \<Rightarrow> False | Some x \<Rightarrow> s \<le> x)"

text \<open>\<^verbatim>\<open>Number.MAX_VALUE\<close>\<close>

definition MAX_VALUE :: rat where
  "MAX_VALUE = (2 ^ 53 - 1) * 2 ^ 971"

text \<open>
  \<open>updateMetrics e success sendTime st\<close>, with \<open>sendTime\<close> in milliseconds. The clock is read
  once, for the rate.
\<close>

definition updateMetrics :: "env \<Rightarrow> bool \<Rightarrow> int \<Rightarrow> state \<Rightarrow> state" where
  "updateMetrics e success sendTime st =
     (let m = metrics st;
          m1 = m\<lparr>emails_total := emails_total m + 1\<rparr>;
          m2 = (if success
                then m1\<lparr>emails_successful := emails_successful m1 + 1,
                        last_email_status := StatusSuccess, consecutive_failures := 0\<rparr>
                else m1\<lparr>emails_failed := emails_failed m1 + 1,
                        last_email_status := StatusFailure\<rparr>);
          sendTimeSeconds = of_int sendTime / 1000;
          d = email_send_duration_seconds m2;
          d1 = d\<lparr>dcount := dcount d + 1, dsum := dsum d + sendTimeSeconds\<rparr>;
          d2 = d1\<lparr>davg := dsum d1 / of_nat (dcount d1)\<rparr>;
          d3 = d2\<lparr>dmax := max (dmax d2) sendTimeSeconds, dmin := min (dmin d2) sendTimeSeconds\<rparr>;
          d4 = d3\<lparr>buckets :=
                   map (\<lambda>b. (fst b, if leqFloat sendTimeSeconds (parseFloat (fst b))
                                     then snd b + 1 else snd b))
                     (buckets d3)\<rparr>;
          now = clock e (ticks st);
          m3 = m2\<lparr>email_send_duration_seconds := d4,
                  email_send_rate :=
                    (if now = last_email_timestamp m2 then None
                     else Some (of_nat (emails_total m2)
                                / (of_int (now - last_email_timestamp m2) / 60000))),
                  last_email_timestamp := now\<rparr>
      in st\<lparr>metrics := m3, ticks := ticks st + 1\<rparr>)"

subsection \<open>The constructor\<close>

definition boolOr :: "bool option \<Rightarrow> bool \<Rightarrow> bool" where
  "boolOr v d = (case v of None \<Rightarrow> d | Some b \<Rightarrow> b \<or> d)"

definition initialMetrics :: "int \<Rightarrow> int \<Rightarrow> config \<Rightarrow> metrics" where
  "initialMetrics t0 t1 cfg =
     \<lparr>emails_total = 0, emails_successful = 0, emails_failed = 0, failed_emails = [],
      email_send_duration_seconds =
        \<lparr>dsum = 0, dcount = 0, davg = 0, dmax = 0, dmin = MAX_VALUE,
         buckets = [(''0.1'', 0), (''0.5'', 0), (''1'', 0), (''2'', 0), (''5'', 0)]\<rparr>,
      email_send_rate = Some 0, last_email_status = StatusNone, last_email_timestamp = t0,
      active_connections = 0, connection_errors = 0, rate_limit_exceeded_total = 0,
      current_rate_limit_window =
        \<lparr>w_count = 0, remaining = numOr (burstLimit (rateLimiting cfg)) 5,
         reset_time = t1 + numOr (cooldownPeriod (rateLimiting cfg)) 1000\<rparr>,
      errors_by_type = (\<lambda>k. 0), consecutive_failures = 0, last_error_timestamp = None,
      banned_recipients_count = 0, total_retry_attempts = 0, successful_retries = 0,
      failure_details =
        \<lparr>last_error = None, error_count_by_recipient = [], avg_failures_per_recipient = 0\<rparr>\<rparr>"

text \<open>
  \<open>FastMailer_new e c\<close>: the constructor applied to the caller's configuration \<open>c\<close>, in
  which a missing \<^verbatim>\<open>rateLimiting\<close> or \<^verbatim>\<open>logging\<close> object is one with every field missing.
  \<open>Inl\<close> is the message of the \<^verbatim>\<open>Error\<close> thrown. Setting up the log file fails when creating
  the directory or the first (empty) append fails, which \<open>appendOk e 0\<close> decides.
\<close>

definition FastMailer_new :: "env \<Rightarrow> config \<Rightarrow> string + state" where
  "FastMailer_new e c =
     (let securePort = (port c = 465);
          rl = rateLimiting c;
          lg = logging c;
          cfg = c\<lparr>retryAttempts := Some (numOr (retryAttempts c) 3),
                  timeout := Some (numOr (timeout c) 5000),
                  keepAlive := Some (boolOr (keepAlive c) False),
                  poolSize := Some (numOr (poolSize c) 5),
                  secure := (if securePort then Some True else secure c),
                  rateLimiting :=
                    \<lparr>perRecipient = Some (nullish (perRecipient rl) True),
                     burstLimit = Some (nullish (burstLimit rl) 5),
                     cooldownPeriod = Some (nullish (cooldownPeriod rl) 1000),
                     banDuration = Some (nullish (banDuration rl) 7200000),
                     maxConsecutiveFailures = Some (nullish (maxConsecutiveFailures rl) 3),
                     failureCooldown = Some (nullish (failureCooldown rl) 300000),
                     maxRapidAttempts = Some (nullish (maxRapidAttempts rl) 10),
                     rapidPeriod = Some (nullish (rapidPeriod rl) 10000)\<rparr>,
                  logging :=
                    \<lparr>level = Some (strOr (level lg) ''info''),
                     format = Some (strOr (format lg) ''json''),
                     customFields = Some (nullish (customFields lg) []),
                     destination = destination lg\<rparr>\<rparr>
      in
      if from_addr cfg = [] then Inl ''From address is required in config''
      else
        let setup = truthyStr (destination (logging cfg));
            dest = nullish (destination (logging cfg)) [];
            resolved = (if path_isAbsolute e dest then dest else path_join_cwd e dest)
        in Inr \<lparr>config = cfg,
                metrics = initialMetrics (clock e 0) (clock e 1) cfg,
                rateLimits = (\<lambda>r. None),
                logFilePath = (if setup \<and> appendOk e 0 then Some resolved else None),
                logFile = [],
                ticks = 2, socketsOpened = 0, commandsSent = 0, randomsDrawn = 0,
                appends = (if setup then 1 else 0), socketsEnded = 0, wire = []\<rparr>)"

subsection \<open>Connections and commands\<close>

text \<open>
  The result of awaiting a promise: it is fulfilled, it is rejected, or it never settles
  (a command whose reply never arrives).
\<close>

datatype 'a awaited = Fulfilled 'a | Failed error | Never

definition optNum :: "int option \<Rightarrow> json" where
  "optNum v = (case v of None \<Rightarrow> JNull | Some n \<Rightarrow> JNum n)"

definition optStr :: "string option \<Rightarrow> json" where
  "optStr v = (case v of None \<Rightarrow> JNull | Some s \<Rightarrow> JStr s)"

text \<open>
  \<open>createConnection\<close> opens a socket, the next one of the environment, and resolves to it
  (a socket is named by its number) or rejects as the \<^verbatim>\<open>timeout\<close> and \<^verbatim>\<open>error\<close> handlers do.
  Events of a socket after its promise has settled are not part of the model.
\<close>

definition createConnection :: "env \<Rightarrow> state \<Rightarrow> (error + nat) \<times> state" where
  "createConnection e st =
     (let k = socketsOpened st;
          st1 = st\<lparr>socketsOpened := k + 1\<rparr>;
          m = metrics st;
          cfg = config st
      in case connects e k of
           Connected \<Rightarrow>
             (Inr k, st1\<lparr>metrics := m\<lparr>active_connections := active_connections m + 1\<rparr>\<rparr>)
         | TimedOut \<Rightarrow>
             (Inl \<lparr>code = ''ETIMEDOUT'', message = ''Connection timeout'',
                   etype = ''connection_error'',
                   ctx = [(''host'', JStr (host cfg)), (''port'', JNum (port cfg)),
                          (''timeout'', optNum (timeout cfg))]\<rparr>,
              st1\<lparr>metrics := bump Timeout
                       (m\<lparr>connection_errors := connection_errors m + 1,
                          last_email_status := StatusFailure\<rparr>)\<rparr>)
         | ConnError c msg \<Rightarrow>
             (Inl \<lparr>code = strOr c ''ECONNECTION'', message = msg,
                   etype = ''connection_error'',
                   ctx = [(''host'', JStr (host cfg)), (''port'', JNum (port cfg)),
                          (''originalError'',
                             JObj [(''code'', optStr c), (''message'', JStr msg)])]\<rparr>,
              st1\<lparr>metrics := bump Connection
                       (m\<lparr>connection_errors := connection_errors m + 1,
                          last_email_status := StatusFailure\<rparr>)\<rparr>))"

definition verifyConnection :: "env \<Rightarrow> state \<Rightarrow> bool \<times> state" where
  "verifyConnection e st =
     (case createConnection e st of
        (Inr socket, st1) \<Rightarrow> (True, st1\<lparr>socketsEnded := socketsEnded st1 + 1\<rparr>)
      | (Inl err, st1) \<Rightarrow>
          (False, st1\<lparr>metrics := bump Connection
                           ((metrics st1)\<lparr>last_email_status := StatusFailure\<rparr>)\<rparr>))"

definition sendCommand :: "env \<Rightarrow> string \<Rightarrow> state \<Rightarrow> string awaited \<times> state" where
  "sendCommand e command st =
     (let k = commandsSent st;
          st1 = st\<lparr>commandsSent := k + 1\<rparr>
      in case replies e k of
           Reply response \<Rightarrow> (Fulfilled response, st1\<lparr>wire := wire st @ [command @ CRLF]\<rparr>)
         | NoReply \<Rightarrow> (Never, st1\<lparr>wire := wire st @ [command @ CRLF]\<rparr>)
         | WriteFailed \<Rightarrow>
             (Failed \<lparr>code = ''ECOMMAND'', message = ''Failed to send command'',
                      etype = ''command_error'',
                      ctx = [(''command'', JStr (take 20 command @ ''...'')),
                             (''error'', JObj [])]\<rparr>,
              st1\<lparr>metrics := bump Command
                       ((metrics st)\<lparr>last_email_status := StatusFailure\<rparr>)\<rparr>))"

text \<open>
  A run of commands, each with the value that \<^verbatim>\<open>currentCommand\<close> has while it is sent. The
  result carries the \<^verbatim>\<open>currentCommand\<close> at the point where the run stopped.
\<close>

fun sendCommands ::
  "env \<Rightarrow> string \<Rightarrow> (string \<times> string) list \<Rightarrow> state \<Rightarrow> (unit awaited \<times> string) \<times> state" where
  "sendCommands e cur [] st = ((Fulfilled (), cur), st)"
| "sendCommands e cur ((label, command) # rest) st =
     (case sendCommand e command st of
        (Fulfilled response, st1) \<Rightarrow> sendCommands e label rest st1
      | (Failed err, st1) \<Rightarrow> ((Failed err, label), st1)
      | (Never, st1) \<Rightarrow> ((Never, label), st1))"


subsection \<open>Mail options\<close>

text \<open>
  \<^verbatim>\<open>MailOptions\<close>: an address field is a string or an array of strings; \<open>textBody\<close> and
  \<open>htmlBody\<close> are the fields \<^verbatim>\<open>text\<close> and \<^verbatim>\<open>html\<close>. The fields \<^verbatim>\<open>priority\<close> and \<^verbatim>\<open>headers\<close>,
  which the mailer never reads, are left out. The content of an attachment is a string or a
  \<^verbatim>\<open>Buffer\<close>.
\<close>

datatype addresses = One string | Many "string list"

datatype content = Text string | Buffer string

record attachment =
  filename :: "string option"
  path :: "string option"
  content :: "content option"
  contentType :: "string option"
  encoding :: "string option"

record mail_options =
  to :: addresses
  subject :: string
  textBody :: "string option"
  htmlBody :: "string option"
  attachments :: "attachment list option"
  cc :: "addresses option"
  bcc :: "addresses option"

record send_result =
  success :: bool
  messageId :: string
  recipients :: string

text \<open>\<^verbatim>\<open>Array.isArray(a) ? a : [a]\<close> and \<^verbatim>\<open>Array.isArray(a) ? a.join(', ') : a\<close>\<close>

fun asList :: "addresses \<Rightarrow> string list" where
  "asList (One s) = [s]"
| "asList (Many xs) = xs"

fun joined :: "addresses \<Rightarrow> string" where
  "joined (One s) = s"
| "joined (Many xs) = join '', '' xs"

text \<open>An optional address field is truthy unless it is missing or the empty string.\<close>

fun truthyAddr :: "addresses option \<Rightarrow> bool" where
  "truthyAddr None = False"
| "truthyAddr (Some (One s)) = (s \<noteq> [])"
| "truthyAddr (Some (Many xs)) = True"

fun addrJson :: "addresses \<Rightarrow> json" where
  "addrJson (One s) = JStr s"
| "addrJson (Many xs) = JArr (map JStr xs)"

subsection \<open>The MIME composer\<close>

definition sanitizePath :: "env \<Rightarrow> string \<Rightarrow> string + string" where
  "sanitizePath e filePath =
     (let normalizedPath = path_normalize e filePath;
          absolutePath = (if path_isAbsolute e normalizedPath then normalizedPath
                          else path_join_cwd e normalizedPath)
      in if \<not> fs_existsSync e absolutePath
         then Inl (''Path validation failed: File does not exist: '' @ filePath)
         else if \<not> fs_readable e absolutePath
         then Inl (''Path validation failed: File is not readable: '' @ filePath)
         else Inr absolutePath)"

definition detectMimeType :: "env \<Rightarrow> string \<Rightarrow> string" where
  "detectMimeType e fname =
     (let ext = toLowerCase e (path_extname e fname)
      in strOr (map_of (mimeTypes e) ext) ''application/octet-stream'')"

definition attachmentError :: "string \<Rightarrow> string \<Rightarrow> error" where
  "attachmentError p reason =
     \<lparr>code = ''EATTACHMENT'', message = ''Failed to read attachment file'',
      etype = ''attachment_error'', ctx = [(''path'', JStr p), (''error'', JStr reason)]\<rparr>"

definition DQ :: char where "DQ = CHR 0x22"

definition attachmentPart :: "env \<Rightarrow> string \<Rightarrow> attachment \<Rightarrow> string \<Rightarrow> string \<Rightarrow> string" where
  "attachmentPart e boundary a fname bytes =
     ''--'' @ boundary @ CRLF
     @ ''Content-Type: '' @ strOr (contentType a) (detectMimeType e fname) @ CRLF
     @ ''Content-Disposition: attachment; filename='' @ [DQ] @ fname @ [DQ] @ CRLF
     @ ''Content-Transfer-Encoding: '' @ strOr (encoding a) ''base64'' @ CRLF @ CRLF
     @ base64 e bytes @ CRLF @ CRLF"

text \<open>
  The loop over the attachments: the text it adds to the message, or the error it throws.
  An attachment with neither a path nor content is skipped.
\<close>

fun attachmentParts :: "env \<Rightarrow> string \<Rightarrow> attachment list \<Rightarrow> error + string" where
  "attachmentParts e boundary [] = Inr []"
| "attachmentParts e boundary (a # rest) =
     (if truthyStr (path a) then
        (let p = nullish (path a) [] in
         case sanitizePath e p of
           Inl reason \<Rightarrow> Inl (attachmentError p reason)
         | Inr filePath \<Rightarrow>
             (case fs_readFileSync e filePath of
                None \<Rightarrow> Inl (attachmentError p ''read failed'')
              | Some bytes \<Rightarrow>
                  (let fname =
                         (if \<not> truthyStr (filename a) then path_basename e filePath
                          else (let given = nullish (filename a) [];
                                    fileExt = path_extname e filePath
                                in if path_extname e given \<noteq> [] then given
                                   else given @ fileExt))
                   in case attachmentParts e boundary rest of
                        Inl err \<Rightarrow> Inl err
                      | Inr others \<Rightarrow> Inr (attachmentPart e boundary a fname bytes @ others))))
      else
        (case content a of
           Some (Buffer bytes) \<Rightarrow>
             (case attachmentParts e boundary rest of
                Inl err \<Rightarrow> Inl err
              | Inr others \<Rightarrow>
                  Inr (attachmentPart e boundary a (strOr (filename a) ''attachment'') bytes
                       @ others))
         | Some (Text s) \<Rightarrow>
             (if s = [] then attachmentParts e boundary rest
              else case attachmentParts e boundary rest of
                     Inl err \<Rightarrow> Inl err
                   | Inr others \<Rightarrow>
                       Inr (attachmentPart e boundary a (strOr (filename a) ''attachment'') s
                            @ others))
         | None \<Rightarrow> attachmentParts e boundary rest))"

text \<open>The header block of the message, up to and including the empty line.\<close>

definition mimeHeaders :: "config \<Rightarrow> mail_options \<Rightarrow> string \<Rightarrow> string" where
  "mimeHeaders cfg options boundary =
     ''MIME-Version: 1.0'' @ CRLF
     @ ''From: '' @ sanitizeHeader (from_addr cfg) @ CRLF
     @ ''To: '' @ sanitizeHeader (joined (to options)) @ CRLF
     @ (if truthyAddr (cc options)
        then ''Cc: '' @ (case cc options of Some a \<Rightarrow> joined a | None \<Rightarrow> []) @ CRLF
        else [])
     @ ''Subject: '' @ sanitizeHeader (subject options) @ CRLF
     @ ''Content-Type: multipart/mixed; boundary='' @ [DQ] @ boundary @ [DQ] @ CRLF @ CRLF"

definition mimeBodies :: "mail_options \<Rightarrow> string \<Rightarrow> string" where
  "mimeBodies options boundary =
     (if truthyStr (textBody options)
      then ''--'' @ boundary @ CRLF @ ''Content-Type: text/plain; charset=utf-8'' @ CRLF @ CRLF
           @ nullish (textBody options) [] @ CRLF @ CRLF
      else [])
     @ (if truthyStr (htmlBody options)
        then ''--'' @ boundary @ CRLF @ ''Content-Type: text/html; charset=utf-8'' @ CRLF @ CRLF
             @ nullish (htmlBody options) [] @ CRLF @ CRLF
        else [])"

text \<open>
  \<open>buildMimeMessage\<close>: the message, or the \<^verbatim>\<open>EATTACHMENT\<close> error with the metrics it
  records before throwing.
\<close>

definition buildMimeMessage ::
  "env \<Rightarrow> mail_options \<Rightarrow> string \<Rightarrow> state \<Rightarrow> (error + string) \<times> state" where
  "buildMimeMessage e options boundary st =
     (case attachmentParts e boundary (nullish (attachments options) []) of
        Inl err \<Rightarrow>
          (Inl err, st\<lparr>metrics := bump Attachment
                            ((metrics st)\<lparr>last_email_status := StatusFailure\<rparr>)\<rparr>)
      | Inr parts \<Rightarrow>
          (Inr (mimeHeaders (config st) options boundary @ mimeBodies options boundary @ parts
                @ ''--'' @ boundary @ ''--'' @ CRLF @ ''.''),
           st))"


subsection \<open>The mailer facade and the SMTP transaction\<close>

definition optList :: "addresses option \<Rightarrow> string list" where
  "optList a = (if truthyAddr a then (case a of Some x \<Rightarrow> asList x | None \<Rightarrow> []) else [])"

text \<open>The recipients of a send: To, then Cc, then Bcc.\<close>

definition recipientsOf :: "mail_options \<Rightarrow> string list" where
  "recipientsOf options = asList (to options) @ optList (cc options) @ optList (bcc options)"

definition invalidEmailError :: "string \<Rightarrow> error" where
  "invalidEmailError recipient =
     \<lparr>code = ''EINVALIDEMAIL'', message = ''Invalid email format: '' @ recipient,
      etype = ''validation_error'', ctx = [(''recipient'', JStr recipient)]\<rparr>"

definition connectionFailedError :: "config \<Rightarrow> error" where
  "connectionFailedError cfg =
     \<lparr>code = ''ECONNECTION'', message = ''SMTP connection failed, cannot send email'',
      etype = ''connection_error'',
      ctx = [(''host'', JStr (host cfg)), (''port'', JNum (port cfg))]\<rparr>"

text \<open>
  The loop that checks the rate limit of each recipient; every call reads the clock on
  entry, and the first exception ends the loop.
\<close>

fun checkRateLimits :: "env \<Rightarrow> string list \<Rightarrow> state \<Rightarrow> error option \<times> state" where
  "checkRateLimits e [] st = (None, st)"
| "checkRateLimits e (r # rs) st =
     (case checkRateLimit e (clock e (ticks st)) r (st\<lparr>ticks := ticks st + 1\<rparr>) of
        (Some err, st1) \<Rightarrow> (Some err, st1)
      | (None, st1) \<Rightarrow> checkRateLimits e rs st1)"

text \<open>The commands of the dialogue up to \<^verbatim>\<open>DATA\<close>, each with its \<^verbatim>\<open>currentCommand\<close>.\<close>

definition dialogue :: "env \<Rightarrow> config \<Rightarrow> string list \<Rightarrow> (string \<times> string) list" where
  "dialogue e cfg rcpts =
     [(''EHLO'', ''EHLO '' @ host cfg)]
     @ (if \<not> boolOr (secure cfg) False then [(''STARTTLS'', ''STARTTLS'')] else [])
     @ [(''AUTH'', ''AUTH LOGIN''),
        (''AUTH'', base64 e (auth_user cfg)),
        (''AUTH'', base64 e (auth_pass cfg)),
        (''MAIL FROM'', ''MAIL FROM:<'' @ from_addr cfg @ ''>'')]
     @ map (\<lambda>r. (''RCPT TO'', ''RCPT TO:<'' @ r @ ''>'')) rcpts
     @ [(''DATA'', ''DATA'')]"

text \<open>
  The body of the \<^verbatim>\<open>try\<close> block up to the computation of \<^verbatim>\<open>sendTime\<close>: the outcome (the
  message id and the send time when all went well), the \<^verbatim>\<open>currentCommand\<close> and the socket,
  if one was obtained.
\<close>

definition attempt ::
  "env \<Rightarrow> mail_options \<Rightarrow> string list \<Rightarrow> int \<Rightarrow> state
     \<Rightarrow> ((string \<times> int) awaited \<times> string \<times> nat option) \<times> state" where
  "attempt e options rcpts startTime st =
     (case createConnection e st of
        (Inl err, st1) \<Rightarrow> ((Failed err, [], None), st1)
      | (Inr socket, st1) \<Rightarrow>
          (case sendCommands e [] (dialogue e (config st1) rcpts) st1 of
             ((Failed err, cur), st2) \<Rightarrow> ((Failed err, cur, Some socket), st2)
           | ((Never, cur), st2) \<Rightarrow> ((Never, cur, Some socket), st2)
           | ((Fulfilled u, cur), st2) \<Rightarrow>
               (let boundary = ''----'' @ randomHex e (randomsDrawn st2);
                    st3 = st2\<lparr>randomsDrawn := randomsDrawn st2 + 1\<rparr>
                in case buildMimeMessage e options boundary st3 of
                     (Inl err, st4) \<Rightarrow> ((Failed err, cur, Some socket), st4)
                   | (Inr mimeMessage, st4) \<Rightarrow>
                       (case sendCommand e mimeMessage st4 of
                          (Failed err, st5) \<Rightarrow> ((Failed err, cur, Some socket), st5)
                        | (Never, st5) \<Rightarrow> ((Never, cur, Some socket), st5)
                        | (Fulfilled response, st5) \<Rightarrow>
                            (let messageId' = randomHex e (randomsDrawn st5);
                                 sendTime = clock e (ticks st5) - startTime
                             in ((Fulfilled (messageId', sendTime), cur, Some socket),
                                 st5\<lparr>randomsDrawn := randomsDrawn st5 + 1,
                                     ticks := ticks st5 + 1\<rparr>))))))"

text \<open>The \<^verbatim>\<open>finally\<close> block.\<close>

definition finally_block :: "nat option \<Rightarrow> state \<Rightarrow> state" where
  "finally_block socket st =
     (if socket \<noteq> None \<and> \<not> boolOr (keepAlive (config st)) False
      then st\<lparr>socketsEnded := socketsEnded st + 1,
              metrics := (metrics st)\<lparr>active_connections :=
                           active_connections (metrics st) - 1\<rparr>\<rparr>
      else st)"

definition resetFailures :: "string list \<Rightarrow> state \<Rightarrow> state" where
  "resetFailures rcpts st =
     foldl (\<lambda>s r. case rateLimits s r of
                     None \<Rightarrow> s
                   | Some l \<Rightarrow> putLimits r (l\<lparr>consecutiveFailures := 0\<rparr>) s)
       st rcpts"

definition countFailures :: "env \<Rightarrow> string list \<Rightarrow> state \<Rightarrow> state" where
  "countFailures e rcpts st =
     foldl (\<lambda>s r. case rateLimits s r of
                     None \<Rightarrow> s
                   | Some l \<Rightarrow>
                       (putLimits r (l\<lparr>consecutiveFailures := consecutiveFailures l + 1,
                                       lastFailure := clock e (ticks s)\<rparr>) s)
                         \<lparr>ticks := ticks s + 1\<rparr>)
       st rcpts"

definition errorKind :: "string \<Rightarrow> error_kind" where
  "errorKind t =
     (if t = ''connection_error'' then Connection
      else if t = ''authentication_error'' then Authentication
      else if t = ''rate_limit_error'' then Rate_limit
      else if t = ''validation_error'' then Validation
      else if t = ''timeout_error'' then Timeout
      else if t = ''attachment_error'' then Attachment
      else if t = ''command_error'' then Command
      else Unknown)"

definition errorJson :: "error \<Rightarrow> json" where
  "errorJson err =
     JObj [(''code'', JStr (code err)), (''message'', JStr (message err)),
           (''details'', JObj [(''type'', JStr (etype err)), (''context'', JObj (ctx err))])]"

text \<open>The \<^verbatim>\<open>catch\<close> block: the bookkeeping of a failed send and the error it rethrows.\<close>

definition recordFailure ::
  "env \<Rightarrow> mail_options \<Rightarrow> string list \<Rightarrow> int \<Rightarrow> string \<Rightarrow> nat option \<Rightarrow> error \<Rightarrow> state
     \<Rightarrow> error \<times> state" where
  "recordFailure e options rcpts startTime currentCommand socket err st =
     (let failureDetails = \<lparr>f_recipient = join '', '' rcpts, f_subject = subject options,
                             f_error = err, f_command = currentCommand, f_attempt = 1\<rparr>;
          m = metrics st;
          fd = failure_details m;
          counts = foldl (\<lambda>c r. setProp c r (case map_of c r of None \<Rightarrow> 1 | Some n \<Rightarrow> n + 1))
                     (error_count_by_recipient fd) rcpts;
          totalRecipients = length counts;
          totalFailures = sum_list (map snd counts);
          m1 = m\<lparr>failed_emails := failed_emails m @ [failureDetails],
                  failure_details :=
                    \<lparr>last_error = Some failureDetails, error_count_by_recipient = counts,
                     avg_failures_per_recipient =
                       (if totalRecipients \<noteq> 0
                        then of_nat totalFailures / of_nat totalRecipients else 0)\<rparr>\<rparr>;
          st1 = st\<lparr>metrics := m1\<rparr>;
          st2 = (if boolOr (perRecipient (rateLimiting (config st1))) False
                 then countFailures e rcpts st1 else st1);
          sendTime = clock e (ticks st2) - startTime;
          st3 = updateMetrics e False sendTime (st2\<lparr>ticks := ticks st2 + 1\<rparr>);
          m3 = (metrics st3)\<lparr>last_email_status := StatusFailure,
                              consecutive_failures := consecutive_failures (metrics st3) + 1,
                              last_error_timestamp := Some (clock e (ticks st3))\<rparr>;
          st4 = st3\<lparr>metrics := bump (errorKind (etype err)) m3, ticks := ticks st3 + 1\<rparr>;
          errorDetails =
            \<lparr>code = strOr (Some (code err)) ''EUNKNOWN'',
             message = strOr (Some (message err)) ''An unknown error occurred'',
             etype = strOr (Some (etype err)) ''smtp_error'',
             ctx = spread (ctx err)
                     [(''lastCommand'', JStr currentCommand),
                      (''recipients'', JArr (map JStr rcpts)),
                      (''subject'', JStr (subject options)),
                      (''attemptNumber'', JNum 1),
                      (''socketState'',
                         JStr (if socket \<noteq> None then ''connected'' else ''disconnected''))]\<rparr>;
          st5 = writeLog e ''error''
                  [(''success'', JBool False), (''event'', JStr ''mail_failure''),
                   (''error'', errorJson errorDetails),
                   (''recipients'', addrJson (to options)),
                   (''subject'', JStr (subject options)), (''sendTime'', JNum sendTime)]
                  st4
      in (errorDetails, st5))"

text \<open>
  Everything from \<^verbatim>\<open>const startTime = Date.now()\<close> on. When a command never gets its reply,
  the promise of \<open>sendMail\<close> never settles and neither \<^verbatim>\<open>catch\<close> nor \<^verbatim>\<open>finally\<close> runs.
\<close>

definition transaction ::
  "env \<Rightarrow> mail_options \<Rightarrow> string list \<Rightarrow> state \<Rightarrow> send_result awaited \<times> state" where
  "transaction e options rcpts st =
     (let startTime = clock e (ticks st) in
      case attempt e options rcpts startTime (st\<lparr>ticks := ticks st + 1\<rparr>) of
        ((Never, currentCommand, socket), st1) \<Rightarrow> (Never, st1)
      | ((Failed err, currentCommand, socket), st1) \<Rightarrow>
          (case recordFailure e options rcpts startTime currentCommand socket err st1 of
             (errorDetails, st2) \<Rightarrow> (Failed errorDetails, finally_block socket st2))
      | ((Fulfilled (messageId', sendTime), currentCommand, socket), st1) \<Rightarrow>
          (let st2 = (if boolOr (perRecipient (rateLimiting (config st1))) False
                      then resetFailures rcpts st1 else st1);
               st3 = updateMetrics e True sendTime st2;
               st4 = writeLog e ''info''
                       [(''success'', JBool True), (''event'', JStr ''mail_success''),
                        (''messageId'', JStr messageId'),
                        (''recipients'', addrJson (to options)),
                        (''subject'', JStr (subject options)), (''sendTime'', JNum sendTime)]
                       st3
           in (Fulfilled \<lparr>success = True, messageId = messageId',
                           recipients = join '', '' rcpts\<rparr>,
               finally_block socket st4)))"

text \<open>
  \<open>sendMail\<close>: the debug log of the attempt, the connection probe, the validation of every
  recipient, the rate limits, and then the transaction. The exceptions of the first three are
  thrown outside the \<^verbatim>\<open>try\<close> block and reach the caller as they are.
\<close>

definition sendMail :: "env \<Rightarrow> mail_options \<Rightarrow> state \<Rightarrow> send_result awaited \<times> state" where
  "sendMail e options st =
     (let st1 = writeLog e ''debug''
                  [(''event'', JStr ''mail_attempt''), (''recipients'', addrJson (to options)),
                   (''subject'', JStr (subject options)),
                   (''timestamp'', JStr (toISOString e (clock e (ticks st))))]
                  (st\<lparr>ticks := ticks st + 1\<rparr>)
      in case verifyConnection e st1 of
           (isConnected, st2) \<Rightarrow>
             if \<not> isConnected then
               (Failed (connectionFailedError (config st2)),
                st2\<lparr>metrics := bump Connection
                         ((metrics st2)\<lparr>last_email_status := StatusFailure\<rparr>)\<rparr>)
             else
               (let rcpts = recipientsOf options in
                case find (\<lambda>r. \<not> validateEmail r) rcpts of
                  Some recipient \<Rightarrow>
                    (Failed (invalidEmailError recipient),
                     st2\<lparr>metrics := bump Validation
                              ((metrics st2)\<lparr>last_email_status := StatusFailure\<rparr>)\<rparr>)
                | None \<Rightarrow>
                    (case (if boolOr (perRecipient (rateLimiting (config st2))) False
                           then checkRateLimits e rcpts st2 else (None, st2)) of
                       (Some err, st3) \<Rightarrow> (Failed err, st3)
                     | (None, st3) \<Rightarrow> transaction e options rcpts st3)))"


subsection \<open>A concrete environment\<close>

text \<open>
  An environment and a configuration on which the functions above can be run: the clock
  advances by one millisecond per reading, every connection succeeds, every command is
  answered and every append succeeds. \<open>offlineEnv\<close> differs in that no connection succeeds.
\<close>

definition flatJson :: "json \<Rightarrow> string" where
  "flatJson j =
     (case j of
        JObj kvs \<Rightarrow>
          ''{'' @ join '','' (map (\<lambda>kv. fst kv @ '':''
                                        @ (case snd kv of JStr s \<Rightarrow> s | _ \<Rightarrow> ''_'')) kvs) @ ''}''
      | _ \<Rightarrow> ''_'')"

definition exampleEnv :: env where
  "exampleEnv =
     \<lparr>JSON_stringify = flatJson, String_of = flatJson, toISOString = (\<lambda>t. ''T''),
      toUpperCase = (\<lambda>s. s), toLowerCase = (\<lambda>s. s), base64 = (\<lambda>s. s),
      path_normalize = (\<lambda>p. p), path_isAbsolute = (\<lambda>p. startsWith p ''/''),
      path_join_cwd = (\<lambda>p. ''/srv/'' @ p), path_basename = (\<lambda>p. p),
      path_extname = (\<lambda>p. []), mimeTypes = [(''.pdf'', ''application/pdf'')],
      fs_existsSync = (\<lambda>p. False), fs_readable = (\<lambda>p. False),
      fs_readFileSync = (\<lambda>p. None),
      clock = (\<lambda>k. int k), connects = (\<lambda>k. Connected), replies = (\<lambda>k. Reply ''250 OK''),
      randomHex = (\<lambda>k. ''0123456789abcdef0123456789abcdef''), appendOk = (\<lambda>k. True)\<rparr>"

definition offlineEnv :: env where
  "offlineEnv = exampleEnv\<lparr>connects := (\<lambda>k. ConnError (Some ''ENOTFOUND'') ''getaddrinfo'')\<rparr>"

definition exampleConfig :: config where
  "exampleConfig =
     \<lparr>host = ''smtp.example.com'', port = 465, secure = Some True, auth_user = ''user'',
      auth_pass = ''secret'', from_addr = ''user@example.com'', retryAttempts = None,
      timeout = None, keepAlive = None, poolSize = None,
      rateLimiting = \<lparr>perRecipient = None, burstLimit = None, cooldownPeriod = None,
                       banDuration = None, maxConsecutiveFailures = None,
                       failureCooldown = None, maxRapidAttempts = None, rapidPeriod = None\<rparr>,
      logging = \<lparr>level = None, format = None, customFields = None, destination = None\<rparr>\<rparr>"

text \<open>The example configuration with a log file, the level \<^verbatim>\<open>debug\<close> and a custom field.\<close>

definition loggingConfig :: config where
  "loggingConfig =
     exampleConfig\<lparr>logging := \<lparr>level = Some ''debug'', format = Some ''json'',
                                 customFields = Some [''password''],
                                 destination = Some ''/var/log/mailer.log''\<rparr>\<rparr>"

text \<open>The mailers that the constructor builds from them.\<close>

definition exampleMailer :: state where
  "exampleMailer = projr (FastMailer_new exampleEnv exampleConfig)"

definition offlineMailer :: state where
  "offlineMailer = projr (FastMailer_new offlineEnv exampleConfig)"

definition loggingMailer :: state where
  "loggingMailer = projr (FastMailer_new exampleEnv loggingConfig)"

text \<open>
  The state after checking the rate limit of one recipient at each of the given times in
  turn, whether the checks return or throw.
\<close>

definition checkedAt :: "env \<Rightarrow> string \<Rightarrow> int list \<Rightarrow> state \<Rightarrow> state" where
  "checkedAt e recipient instants st =
     foldl (\<lambda>s t. snd (checkRateLimit e t recipient s)) st instants"


subsection \<open>Reachable states and the counters of completed sends\<close>

text \<open>
  The states of a mailer that its public interface can produce: the constructor, then any
  number of calls of \<open>sendMail\<close> and \<open>verifyConnection\<close> (\<^verbatim>\<open>getMetrics\<close> only reads).
\<close>

inductive reachable :: "env \<Rightarrow> state \<Rightarrow> bool" for e :: env where
  constructed: "FastMailer_new e c = Inr st \<Longrightarrow> reachable e st"
| sent: "reachable e st \<Longrightarrow> reachable e (snd (sendMail e options st))"
| verified: "reachable e st \<Longrightarrow> reachable e (snd (verifyConnection e st))"

text \<open>\<^verbatim>\<open>buckets[k]\<close>, read as 0 for a key that is not there.\<close>

definition bucket :: "string \<Rightarrow> duration \<Rightarrow> nat" where
  "bucket k d = (case map_of (buckets d) k of None \<Rightarrow> 0 | Some n \<Rightarrow> n)"

text \<open>
  The part of the metrics that only \<open>updateMetrics\<close> writes, and the invariant of that part.
\<close>

definition tally :: "state \<Rightarrow> nat \<times> nat \<times> nat \<times> duration" where
  "tally st = (emails_total (metrics st), emails_successful (metrics st),
               emails_failed (metrics st), email_send_duration_seconds (metrics st))"

definition bucketKeys :: "string list" where
  "bucketKeys = [''0.1'', ''0.5'', ''1'', ''2'', ''5'']"

definition tallyOk :: "nat \<times> nat \<times> nat \<times> duration \<Rightarrow> bool" where
  "tallyOk t =
     (case t of (n, nOk, nFailed, d) \<Rightarrow>
        n = nOk + nFailed \<and> map fst (buckets d) = bucketKeys
        \<and> bucket ''5'' d \<le> dcount d)"

text \<open>A send to one valid recipient with a text body.\<close>

definition exampleMail :: mail_options where
  "exampleMail = \<lparr>to = One ''a@b.co'', subject = ''Hello'', textBody = Some ''Hi there'',
                   htmlBody = None, attachments = None, cc = None, bcc = None\<rparr>"

subsection \<open>Inputs used below\<close>

text \<open>A send to the address \<open>notanemail\<close>.\<close>

definition invalidMail :: mail_options where
  "invalidMail = \<lparr>to = One ''notanemail'', subject = ''Hello'', textBody = Some ''Hi there'',
                   htmlBody = None, attachments = None, cc = None, bcc = None\<rparr>"





text \<open>The error with which a promise was rejected, if it was.\<close>

definition rejection :: "'a awaited \<Rightarrow> error option" where
  "rejection a = (case a of Failed err \<Rightarrow> Some err | Fulfilled x \<Rightarrow> None | Never \<Rightarrow> None)"



section \<open>Properties\<close>

subsection \<open>The matcher decides the language\<close>






subsection \<open>C6: the header sanitizer\<close>

text \<open>
  C6. The header sanitizer is idempotent, and its result holds none of the characters CR, LF,
  TAB, VT and FF.
\<close>

theorem sanitizeHeader_idempotent_clean:
  "sanitizeHeader (sanitizeHeader x) = sanitizeHeader x
   \<and> set (sanitizeHeader x) \<inter> {CR, LF, TAB, VT, FF} = {}"
  by (auto simp: sanitizeHeader_def)

subsection \<open>C7: the address validator on the listed inputs\<close>

lemmas validateEmail_unfold =
  validateEmail_def endsWith_def emailRegex_def localAtom_def domainLabel_def Opt_def Plus_def
  lit_def alnum_def atext_def inClass_def inRange_def

text \<open>
  C7. \<open>validateEmail\<close> rejects the empty string, \<open>a b@c.d\<close>, \<open>a..b@c.d\<close>, \<open>.a@c.d\<close>, \<open>a.@c.d\<close>,
  \<open>a@@c.d\<close> and \<open>notanemail\<close>, and accepts \<open>a@b.co\<close>, \<open>a.b@c.d.e\<close> and \<open>a+b@c.d\<close>.
\<close>

theorem validateEmail_listed_inputs:
  "validateEmail '''' = False
   \<and> validateEmail ''a b@c.d'' = False
   \<and> validateEmail ''a..b@c.d'' = False
   \<and> validateEmail ''.a@c.d'' = False
   \<and> validateEmail ''a.@c.d'' = False
   \<and> validateEmail ''a@@c.d'' = False
   \<and> validateEmail ''notanemail'' = False
   \<and> validateEmail ''a@b.co'' = True
   \<and> validateEmail ''a.b@c.d.e'' = True
   \<and> validateEmail ''a+b@c.d'' = True"
  by (simp add: validateEmail_unfold)

subsection \<open>Unfolding the concrete environment\<close>

lemmas example_defs =
  exampleMailer_def offlineMailer_def loggingMailer_def FastMailer_new_def exampleConfig_def
  loggingConfig_def exampleEnv_def offlineEnv_def initialMetrics_def

lemmas js_defs = numOr_def strOr_def nullish_def boolOr_def truthyStr_def

lemma exampleMailer_new: "FastMailer_new exampleEnv exampleConfig = Inr exampleMailer"
  by (simp add: example_defs Let_def)

subsection \<open>C8: the log level filter\<close>

text \<open>
  C8. The level filter is an equality check and not a floor: with the configured level
  \<open>debug\<close> every message is logged; with \<open>info\<close>, \<open>warn\<close> or \<open>error\<close> a message is logged
  exactly when its level is the configured one, so that a \<open>warn\<close> configuration drops
  \<open>error\<close> messages.
\<close>

theorem shouldLog_equality_filter:
  "shouldLog (cfg\<lparr>logging := (logging cfg)\<lparr>level := Some ''debug''\<rparr>\<rparr>) lvl = True
   \<and> shouldLog (cfg\<lparr>logging := (logging cfg)\<lparr>level := Some ''info''\<rparr>\<rparr>) lvl = (lvl = ''info'')
   \<and> shouldLog (cfg\<lparr>logging := (logging cfg)\<lparr>level := Some ''warn''\<rparr>\<rparr>) lvl = (lvl = ''warn'')
   \<and> shouldLog (cfg\<lparr>logging := (logging cfg)\<lparr>level := Some ''error''\<rparr>\<rparr>) lvl = (lvl = ''error'')
   \<and> shouldLog (cfg\<lparr>logging := (logging cfg)\<lparr>level := Some ''warn''\<rparr>\<rparr>) ''error'' = False"
  by (simp add: shouldLog_def strOr_def)

subsection \<open>C3: what holds when the rate-limit check returns\<close>

text \<open>
  C3. When \<open>checkRateLimit\<close> for a recipient returns normally at time \<open>now\<close>, the recipient's
  count after the call is at most the burst limit, and the recipient is not banned or the ban
  has expired; in fact the recipient is not banned.
\<close>

theorem checkRateLimit_admitted:
  assumes "checkRateLimit e now recipient st = (None, st')"
  shows "\<exists>l. rateLimits st' recipient = Some l
           \<and> count l \<le> nullish (burstLimit (rateLimiting (config st))) 5
           \<and> (\<not> banned l \<or> banExpiry l \<le> now)
           \<and> \<not> banned l"
  using assms
  by (auto simp: checkRateLimit_def Let_def putLimits_def writeLog_def split: if_splits)

theorem checkRateLimit_admitted_witness:
  "fst (checkRateLimit exampleEnv 1000 ''a@b.co'' exampleMailer) = None
   \<and> (\<exists>l. rateLimits (snd (checkRateLimit exampleEnv 1000 ''a@b.co'' exampleMailer)) ''a@b.co''
             = Some l
           \<and> count l \<le> 5 \<and> (\<not> banned l \<or> banExpiry l \<le> 1000) \<and> \<not> banned l)"
proof -
  have ret: "fst (checkRateLimit exampleEnv 1000 ''a@b.co'' exampleMailer) = None"
    by (simp add: checkRateLimit_def example_defs js_defs newLimits_def Let_def)
  then have "checkRateLimit exampleEnv 1000 ''a@b.co'' exampleMailer
      = (None, snd (checkRateLimit exampleEnv 1000 ''a@b.co'' exampleMailer))"
    by (simp add: prod_eq_iff)
  from checkRateLimit_admitted [OF this] ret show ?thesis
    by (simp add: example_defs js_defs Let_def)
qed

subsection \<open>C4: the rapid-attempt ban leaves \<open>lastAttempt\<close> behind\<close>

text \<open>
  C4. The claim is that \<open>lastAttempt\<close> equals \<open>now\<close> after every call. Ten checks of one
  recipient on a fresh mailer, at the times 0 to 9: the tenth throws "Too many rapid sending
  attempts", and \<open>lastAttempt\<close> is then still 8, the time of the ninth, because the
  \<^verbatim>\<open>throw\<close> comes before the assignment.
\<close>

theorem checkRateLimit_rapid_ban_skips_lastAttempt:
  "map_option message
     (fst (checkRateLimit exampleEnv 9 ''a@b.co''
            (checkedAt exampleEnv ''a@b.co'' [0, 1, 2, 3, 4, 5, 6, 7, 8] exampleMailer)))
     = Some ''Too many rapid sending attempts''
   \<and> map_option lastAttempt
       (rateLimits (snd (checkRateLimit exampleEnv 9 ''a@b.co''
            (checkedAt exampleEnv ''a@b.co'' [0, 1, 2, 3, 4, 5, 6, 7, 8] exampleMailer)))
          ''a@b.co'')
     = Some 8"
  by (simp add: checkedAt_def checkRateLimit_def example_defs js_defs newLimits_def Let_def
        putLimits_def writeLog_def rateLimitError_def bump_def)


subsection \<open>C10: custom fields undo the masking\<close>

lemma map_of_setProp: "map_of (setProp ob k v) = (map_of ob)(k \<mapsto> v)"
  by (induction ob) (auto simp: fun_eq_iff)

lemma mask_step:
  "map_of (foldl (\<lambda>masked field. if truthyProp masked field
                                    then setProp masked field (JStr ''********'') else masked)
             ob fs) k
   = (if k \<in> set fs \<and> truthyProp ob k then Some (JStr ''********'') else map_of ob k)"
proof (induction fs arbitrary: ob)
  case Nil
  show ?case by simp
next
  case (Cons f fs)
  have "truthyProp (setProp ob f (JStr ''********'')) k \<longleftrightarrow> k = f \<or> truthyProp ob k"
    by (simp add: truthyProp_def map_of_setProp)
  then show ?case
    by (simp add: Cons.IH map_of_setProp) (auto simp: truthyProp_def)
qed

lemma maskSensitiveData_lookup:
  "map_of (maskSensitiveData data) k
   = (if k \<in> set sensitiveFields \<and> truthyProp data k then Some (JStr ''********'')
      else map_of data k)"
  by (simp add: maskSensitiveData_def mask_step)

lemma custom_step:
  "map_of (foldl (\<lambda>entry field. case map_of data field of
                                   None \<Rightarrow> entry
                                 | Some v \<Rightarrow> if truthy v then setProp entry field v else entry)
             entry0 fs) k
   = (if k \<in> set fs \<and> truthyProp data k then map_of data k else map_of entry0 k)"
proof (induction fs arbitrary: entry0)
  case Nil
  show ?case by simp
next
  case (Cons f fs)
  show ?case
    by (simp add: Cons.IH map_of_setProp split: option.splits) (auto simp: truthyProp_def)
qed

lemma logEntryOf_custom:
  assumes "customFields (logging cfg) = Some fs" "k \<in> set fs" "map_of data k = Some v" "truthy v"
  shows "map_of (logEntryOf cfg ts lvl data) k = Some v"
  using assms by (simp add: logEntryOf_def Let_def custom_step truthyProp_def)

text \<open>
  C10. Masking is undone by configuration. When a payload carries a truthy value under one
  of the keys \<open>password\<close>, \<open>auth\<close>, \<open>token\<close>, \<open>key\<close> and that key is listed in
  \<open>customFields\<close>, the entry written in JSON format holds the original value under the key,
  although the masked copy of the payload holds the mask there.
\<close>

theorem writeLog_custom_field_unmasked:
  assumes "truthyStr (logFilePath st)" and "shouldLog (config st) lvl"
    and "appendOk e (appends st)"
    and "format (logging (config st)) \<noteq> Some ''text''"
    and "customFields (logging (config st)) = Some fs"
    and "k \<in> set sensitiveFields" and "k \<in> set fs"
    and "map_of data k = Some v" and "truthy v"
  shows "\<exists>entry. logFile (writeLog e lvl data st)
                    = logFile st @ [JSON_stringify e (JObj entry) @ [LF]]
           \<and> map_of entry k = Some v
           \<and> map_of (maskSensitiveData data) k = Some (JStr ''********'')"
proof -
  let ?ts = "toISOString e (clock e (ticks st))"
  let ?entry = "logEntryOf (config st) ?ts lvl data"
  have "logFile (writeLog e lvl data st) = logFile st @ [JSON_stringify e (JObj ?entry) @ [LF]]"
    using assms(1-4) by (simp add: writeLog_def formatLog_def Let_def)
  moreover have "map_of ?entry k = Some v"
    using assms(5,7,8,9) by (rule logEntryOf_custom)
  moreover have "map_of (maskSensitiveData data) k = Some (JStr ''********'')"
    using assms(6,8,9) by (simp add: maskSensitiveData_lookup truthyProp_def)
  ultimately show ?thesis by blast
qed

theorem writeLog_custom_field_unmasked_witness:
  "logFile (writeLog exampleEnv ''info'' [(''event'', JStr ''login''), (''password'', JStr ''hunter2'')]
              loggingMailer)
     = [''{timestamp:T,level:info,event:login,password:hunter2}'' @ [LF]]
   \<and> map_of (maskSensitiveData [(''event'', JStr ''login''), (''password'', JStr ''hunter2'')])
        ''password'' = Some (JStr ''********'')"
proof -
  let ?data = "[(''event'', JStr ''login''), (''password'', JStr ''hunter2'')]"
  have 1: "truthyStr (logFilePath loggingMailer)"
    and 2: "shouldLog (config loggingMailer) ''info''"
    and 3: "appendOk exampleEnv (appends loggingMailer)"
    and 4: "format (logging (config loggingMailer)) \<noteq> Some ''text''"
    and 5: "customFields (logging (config loggingMailer)) = Some [''password'']"
    by (simp_all add: example_defs js_defs shouldLog_def Let_def)
  have 6: "''password'' \<in> set sensitiveFields" by (simp add: sensitiveFields_def)
  have 7: "''password'' \<in> set [''password'']" by simp
  have 8: "map_of ?data ''password'' = Some (JStr ''hunter2'')" by simp
  have 9: "truthy (JStr ''hunter2'')" by simp
  have line: "logFile (writeLog exampleEnv ''info'' ?data loggingMailer)
     = [''{timestamp:T,level:info,event:login,password:hunter2}'' @ [LF]]"
    by (simp add: writeLog_def formatLog_def logEntryOf_def maskSensitiveData_def
        sensitiveFields_def truthyProp_def spread_def flatJson_def shouldLog_def
        example_defs js_defs Let_def)
  moreover from writeLog_custom_field_unmasked [OF 1 2 3 4 5 6 7 8 9]
  have "map_of (maskSensitiveData ?data) ''password'' = Some (JStr ''********'')"
    by blast
  ultimately show ?thesis by (rule conjI)
qed


subsection \<open>What leaves the counters of completed sends alone\<close>

lemma writeLog_metrics [simp]: "metrics (writeLog e lvl data st) = metrics st"
  by (simp add: writeLog_def Let_def)

lemma writeLog_config [simp]: "config (writeLog e lvl data st) = config st"
  by (simp add: writeLog_def Let_def)

lemma writeLog_rateLimits [simp]: "rateLimits (writeLog e lvl data st) = rateLimits st"
  by (simp add: writeLog_def Let_def)

lemma tally_writeLog [simp]: "tally (writeLog e lvl data st) = tally st"
  by (simp add: tally_def)

lemma tally_ticks [simp]: "tally (st\<lparr>ticks := n\<rparr>) = tally st"
  by (simp add: tally_def)

lemma tally_randoms [simp]: "tally (st\<lparr>randomsDrawn := n\<rparr>) = tally st"
  by (simp add: tally_def)

lemma createConnection_tally: "createConnection e st = (r, st') \<Longrightarrow> tally st' = tally st"
  by (auto simp: createConnection_def tally_def bump_def Let_def split: conn_outcome.splits)

lemma verifyConnection_tally: "verifyConnection e st = (r, st') \<Longrightarrow> tally st' = tally st"
  by (auto simp: verifyConnection_def tally_def bump_def
      split: prod.splits sum.splits dest!: createConnection_tally)

lemma checkRateLimit_tally: "checkRateLimit e now r st = (res, st') \<Longrightarrow> tally st' = tally st"
  by (auto simp: checkRateLimit_def tally_def bump_def putLimits_def Let_def split: if_splits)

lemma checkRateLimits_tally: "checkRateLimits e rs st = (res, st') \<Longrightarrow> tally st' = tally st"
proof (induction rs arbitrary: st)
  case Nil
  then show ?case by simp
next
  case (Cons r rs)
  then show ?case
    by (auto split: prod.splits option.splits dest!: checkRateLimit_tally)
qed

lemma sendCommand_tally: "sendCommand e c st = (res, st') \<Longrightarrow> tally st' = tally st"
  by (auto simp: sendCommand_def tally_def bump_def Let_def split: cmd_outcome.splits)

lemma sendCommands_tally: "sendCommands e cur cs st = (res, st') \<Longrightarrow> tally st' = tally st"
proof (induction cs arbitrary: st cur)
  case Nil
  then show ?case by simp
next
  case (Cons c cs)
  then show ?case
    by (cases c) (auto split: prod.splits awaited.splits dest!: sendCommand_tally)
qed

lemma buildMimeMessage_tally:
  "buildMimeMessage e opts b st = (res, st') \<Longrightarrow> tally st' = tally st"
  by (auto simp: buildMimeMessage_def tally_def bump_def split: sum.splits)

lemma attempt_tally: "attempt e opts rs t0 st = (res, st') \<Longrightarrow> tally st' = tally st"
  unfolding attempt_def Let_def
  by (auto split: prod.splits sum.splits awaited.splits
      dest!: createConnection_tally sendCommands_tally buildMimeMessage_tally sendCommand_tally)


lemma tally_putLimits [simp]: "tally (putLimits r l st) = tally st"
  by (simp add: putLimits_def tally_def)

lemma tally_resetFailures [simp]: "tally (resetFailures rs st) = tally st"
  unfolding resetFailures_def
  by (induction rs arbitrary: st) (simp_all split: option.splits)

lemma tally_countFailures [simp]: "tally (countFailures e rs st) = tally st"
  unfolding countFailures_def
  by (induction rs arbitrary: st) (simp_all split: option.splits)

lemma config_countFailures [simp]: "config (countFailures e rs st) = config st"
  unfolding countFailures_def
  by (induction rs arbitrary: st) (simp_all add: putLimits_def split: option.splits)

lemma tally_finally_block [simp]: "tally (finally_block socket st) = tally st"
  by (simp add: finally_block_def tally_def)

lemma map_of_bump_buckets:
  "map_of (map (\<lambda>b. (fst b, if leqFloat s (parseFloat (fst b)) then snd b + 1 else snd b)) xs) k
   = map_option (\<lambda>n. if leqFloat s (parseFloat k) then n + 1 else n) (map_of xs k)"
  by (induction xs) auto

lemma parseFloat_bucketKeys:
  "map parseFloat bucketKeys = [Some (1 / 10), Some (1 / 2), Some 1, Some 2, Some 5]"
  by (simp add: bucketKeys_def parseFloat_def digitOf_def natOfDigits_def Let_def)

lemma updateMetrics_tallyOk:
  assumes "tallyOk (tally st)"
  shows "tallyOk (tally (updateMetrics e ok t st))"
proof -
  let ?d = "email_send_duration_seconds (metrics st)"
  from assms have inv: "emails_total (metrics st) = emails_successful (metrics st) + emails_failed (metrics st)"
    "map fst (buckets ?d) = bucketKeys" "bucket ''5'' ?d \<le> dcount ?d"
    by (simp_all add: tallyOk_def tally_def)
  from inv(2) obtain n where n: "map_of (buckets ?d) ''5'' = Some n"
    by (metis bucketKeys_def list.set_intros(1,2) list.set_map map_of_eq_None_iff not_Some_eq)
  with inv(3) have "n \<le> dcount ?d" by (simp add: bucket_def)
  with inv(1,2) n show ?thesis
    by (simp add: tallyOk_def tally_def updateMetrics_def Let_def bucket_def
        map_of_bump_buckets comp_def)
qed

lemma recordFailure_tally_inv:
  assumes "recordFailure e opts rs t0 cur socket err st = (err', st')" "Q (tally st)"
    and step: "\<And>ok t s. Q (tally s) \<Longrightarrow> Q (tally (updateMetrics e ok t s))"
  shows "Q (tally st')"
proof -
  define m1 where "m1 = (metrics st)\<lparr>failed_emails := failed_emails (metrics st) @
       [\<lparr>f_recipient = join '', '' rs, f_subject = subject opts, f_error = err,
         f_command = cur, f_attempt = 1\<rparr>],
     failure_details := \<lparr>last_error = Some \<lparr>f_recipient = join '', '' rs, f_subject = subject opts, f_error = err,
         f_command = cur, f_attempt = 1\<rparr>,
       error_count_by_recipient = foldl (\<lambda>c r. setProp c r (case map_of c r of None \<Rightarrow> 1 | Some n \<Rightarrow> n + 1))
                     (error_count_by_recipient (failure_details (metrics st))) rs,
       avg_failures_per_recipient = (if length (foldl (\<lambda>c r. setProp c r (case map_of c r of None \<Rightarrow> 1 | Some n \<Rightarrow> n + 1))
                     (error_count_by_recipient (failure_details (metrics st))) rs) \<noteq> 0
                        then of_nat (sum_list (map snd (foldl (\<lambda>c r. setProp c r (case map_of c r of None \<Rightarrow> 1 | Some n \<Rightarrow> n + 1))
                     (error_count_by_recipient (failure_details (metrics st))) rs))) / of_nat (length (foldl (\<lambda>c r. setProp c r (case map_of c r of None \<Rightarrow> 1 | Some n \<Rightarrow> n + 1))
                     (error_count_by_recipient (failure_details (metrics st))) rs)) else 0)\<rparr>\<rparr>"
  define st2 where "st2 = (if boolOr (perRecipient (rateLimiting (config st))) False
                 then countFailures e rs (st\<lparr>metrics := m1\<rparr>) else st\<lparr>metrics := m1\<rparr>)"
  define st3 where "st3 = updateMetrics e False (clock e (ticks st2) - t0) (st2\<lparr>ticks := ticks st2 + 1\<rparr>)"
  have "tally (st\<lparr>metrics := m1\<rparr>) = tally st" by (simp add: tally_def m1_def)
  then have "tally st2 = tally st" by (simp add: st2_def)
  with assms(2) have "Q (tally (st2\<lparr>ticks := ticks st2 + 1\<rparr>))" by simp
  then have ok3: "Q (tally st3)" unfolding st3_def by (rule step)
  have "tally st' = tally st3"
    using assms(1) unfolding recordFailure_def Let_def m1_def [symmetric]
    by (auto simp: st3_def st2_def tally_def bump_def)
  with ok3 show ?thesis by simp
qed

lemma transaction_tally_inv:
  assumes "transaction e opts rs st = (res, st')" "Q (tally st)"
    and step: "\<And>ok t s. Q (tally s) \<Longrightarrow> Q (tally (updateMetrics e ok t s))"
  shows "Q (tally st')"
proof -
  obtain out cur socket st1 where
    att: "attempt e opts rs (clock e (ticks st)) (st\<lparr>ticks := ticks st + 1\<rparr>) = ((out, cur, socket), st1)"
    by (metis prod.exhaust)
  from attempt_tally [OF att] assms(2) have ok1: "Q (tally st1)" by simp
  show ?thesis
  proof (cases out)
    case Never
    with att assms(1) ok1 show ?thesis by (simp add: transaction_def Let_def)
  next
    case (Failed err)
    obtain err' st2 where rf:
      "recordFailure e opts rs (clock e (ticks st)) cur socket err st1 = (err', st2)"
      by (metis prod.exhaust)
    from recordFailure_tally_inv [OF rf ok1 step] have "Q (tally st2)" .
    with Failed att assms(1) rf show ?thesis by (auto simp: transaction_def Let_def)
  next
    case (Fulfilled r)
    obtain mid t where r: "r = (mid, t)" by (cases r)
    let ?st2 = "if boolOr (perRecipient (rateLimiting (config st1))) False
                then resetFailures rs st1 else st1"
    from ok1 have "Q (tally ?st2)" by simp
    then have "Q (tally (updateMetrics e True t ?st2))" by (rule step)
    with Fulfilled r att assms(1) show ?thesis by (auto simp: transaction_def Let_def)
  qed
qed

lemma sendMail_tally_inv:
  assumes "Q (tally st)"
    and step: "\<And>ok t s. Q (tally s) \<Longrightarrow> Q (tally (updateMetrics e ok t s))"
  shows "Q (tally (snd (sendMail e opts st)))"
proof -
  let ?st1 = "writeLog e ''debug''
                  [(''event'', JStr ''mail_attempt''), (''recipients'', addrJson (to opts)),
                   (''subject'', JStr (subject opts)),
                   (''timestamp'', JStr (toISOString e (clock e (ticks st))))]
                  (st\<lparr>ticks := ticks st + 1\<rparr>)"
  obtain c st2 where vc: "verifyConnection e ?st1 = (c, st2)" by (metis prod.exhaust)
  from verifyConnection_tally [OF vc] assms(1) have ok2: "Q (tally st2)" by simp
  have bumped: "\<And>k. tally (st2\<lparr>metrics := bump k ((metrics st2)\<lparr>last_email_status := StatusFailure\<rparr>)\<rparr>) = tally st2"
    by (simp add: tally_def bump_def)
  show ?thesis
  proof (cases "\<not> c")
    case True
    with vc ok2 bumped show ?thesis by (simp add: sendMail_def Let_def)
  next
    case c: False
    show ?thesis
    proof (cases "find (\<lambda>r. \<not> validateEmail r) (recipientsOf opts)")
      case (Some r)
      with c vc ok2 bumped show ?thesis by (simp add: sendMail_def Let_def)
    next
      case None
      obtain res3 st3 where rl:
        "(if boolOr (perRecipient (rateLimiting (config st2))) False
          then checkRateLimits e (recipientsOf opts) st2 else (None, st2)) = (res3, st3)"
        by (metis prod.exhaust)
      then have "tally st3 = tally st2"
        by (auto split: if_splits dest: checkRateLimits_tally)
      with ok2 have ok3: "Q (tally st3)" by simp
      show ?thesis
      proof (cases res3)
        case (Some err)
        with None c vc rl ok3 show ?thesis by (simp add: sendMail_def Let_def)
      next
        case res3: None
        obtain res4 st4 where tr: "transaction e opts (recipientsOf opts) st3 = (res4, st4)"
          by (metis prod.exhaust)
        from transaction_tally_inv [OF tr ok3 step] have "Q (tally st4)" .
        with None res3 c vc rl tr show ?thesis by (simp add: sendMail_def Let_def)
      qed
    qed
  qed
qed

lemma sendMail_tallyOk:
  assumes "tallyOk (tally st)"
  shows "tallyOk (tally (snd (sendMail e opts st)))"
  using assms updateMetrics_tallyOk by (rule sendMail_tally_inv)

lemma FastMailer_new_tallyOk: "FastMailer_new e c = Inr st \<Longrightarrow> tallyOk (tally st)"
  by (auto simp: FastMailer_new_def Let_def tallyOk_def tally_def initialMetrics_def
      bucketKeys_def bucket_def split: if_splits)

lemma reachable_tallyOk: "reachable e st \<Longrightarrow> tallyOk (tally st)"
proof (induction rule: reachable.induct)
  case (constructed c st)
  then show ?case by (rule FastMailer_new_tallyOk)
next
  case (sent st options)
  then show ?case by (simp add: sendMail_tallyOk)
next
  case (verified st)
  have "tally (snd (verifyConnection e st)) = tally st"
    by (metis verifyConnection_tally prod.collapse)
  with verified show ?case by simp
qed

subsection \<open>C5: the counters of completed sends\<close>

text \<open>
  C5. \<open>updateMetrics\<close> increments \<open>emails_total\<close> and exactly one of \<open>emails_successful\<close>
  (on success, also setting \<open>last_email_status\<close> to success and \<open>consecutive_failures\<close> to 0)
  and \<open>emails_failed\<close> (on failure, setting \<open>last_email_status\<close> to failure); it keeps
  \<open>emails_total = emails_successful + emails_failed\<close>, which holds in every state that the
  constructor, \<open>sendMail\<close> and \<open>verifyConnection\<close> can reach.
\<close>

theorem updateMetrics_send_counters:
  "emails_total (metrics (updateMetrics e ok t st)) = emails_total (metrics st) + 1
   \<and> emails_successful (metrics (updateMetrics e ok t st))
       = emails_successful (metrics st) + (if ok then 1 else 0)
   \<and> emails_failed (metrics (updateMetrics e ok t st))
       = emails_failed (metrics st) + (if ok then 0 else 1)
   \<and> last_email_status (metrics (updateMetrics e ok t st))
       = (if ok then StatusSuccess else StatusFailure)
   \<and> (ok \<longrightarrow> consecutive_failures (metrics (updateMetrics e ok t st)) = 0)
   \<and> (emails_total (metrics st) = emails_successful (metrics st) + emails_failed (metrics st)
        \<longrightarrow> emails_total (metrics (updateMetrics e ok t st))
             = emails_successful (metrics (updateMetrics e ok t st))
               + emails_failed (metrics (updateMetrics e ok t st)))
   \<and> (reachable e st
        \<longrightarrow> emails_total (metrics st) = emails_successful (metrics st) + emails_failed (metrics st))"
proof -
  have "reachable e st
        \<longrightarrow> emails_total (metrics st) = emails_successful (metrics st) + emails_failed (metrics st)"
    using reachable_tallyOk [of e st] by (simp add: tallyOk_def tally_def)
  then show ?thesis
    by (simp add: updateMetrics_def Let_def)
qed

theorem updateMetrics_send_counters_witness:
  "reachable exampleEnv exampleMailer
   \<and> emails_total (metrics exampleMailer) = 0
   \<and> emails_successful (metrics exampleMailer) = 0
   \<and> emails_failed (metrics exampleMailer) = 0
   \<and> emails_total (metrics (updateMetrics exampleEnv True 150 exampleMailer)) = 1
   \<and> emails_successful (metrics (updateMetrics exampleEnv True 150 exampleMailer)) = 1
   \<and> emails_failed (metrics (updateMetrics exampleEnv True 150 exampleMailer)) = 0
   \<and> last_email_status (metrics (updateMetrics exampleEnv True 150 exampleMailer)) = StatusSuccess
   \<and> consecutive_failures (metrics (updateMetrics exampleEnv True 150 exampleMailer)) = 0"
proof -
  have r: "reachable exampleEnv exampleMailer"
    using exampleMailer_new by (rule reachable.constructed)
  have z: "emails_total (metrics exampleMailer) = 0" "emails_successful (metrics exampleMailer) = 0"
    "emails_failed (metrics exampleMailer) = 0"
    by (simp_all add: example_defs Let_def)
  from updateMetrics_send_counters [of exampleEnv True 150 exampleMailer] r z
  show ?thesis by simp
qed

text \<open>A complete send in the concrete environment.\<close>

lemma sendMail_example:
  "fst (sendMail exampleEnv exampleMail exampleMailer)
     = Fulfilled \<lparr>success = True, messageId = ''0123456789abcdef0123456789abcdef'',
                  recipients = ''a@b.co''\<rparr>"
  by (simp add: sendMail_def transaction_def attempt_def dialogue_def verifyConnection_def
      createConnection_def sendCommand_def buildMimeMessage_def recipientsOf_def optList_def
      exampleMail_def checkRateLimit_def newLimits_def putLimits_def writeLog_def
      shouldLog_def validateEmail_unfold example_defs js_defs Let_def)


subsection \<open>C9: the histogram\<close>

lemma buckets_keys_updateMetrics:
  "map fst (buckets (email_send_duration_seconds (metrics (updateMetrics e ok t st))))
   = map fst (buckets (email_send_duration_seconds (metrics st)))"
  by (simp add: updateMetrics_def Let_def comp_def)

lemma bucket_updateMetrics:
  "bucket k (email_send_duration_seconds (metrics (updateMetrics e ok t st)))
   = (if k \<in> fst ` set (buckets (email_send_duration_seconds (metrics st)))
         \<and> leqFloat (of_int t / 1000) (parseFloat k)
      then bucket k (email_send_duration_seconds (metrics st)) + 1
      else bucket k (email_send_duration_seconds (metrics st)))"
proof (cases "map_of (buckets (email_send_duration_seconds (metrics st))) k")
  case None
  then have "k \<notin> fst ` set (buckets (email_send_duration_seconds (metrics st)))"
    by (simp add: map_of_eq_None_iff)
  with None show ?thesis
    by (simp add: updateMetrics_def Let_def bucket_def map_of_bump_buckets)
next
  case (Some n)
  then have "k \<in> fst ` set (buckets (email_send_duration_seconds (metrics st)))"
    by (metis map_of_eq_None_iff option.distinct(1))
  with Some show ?thesis
    by (simp add: updateMetrics_def Let_def bucket_def map_of_bump_buckets)
qed

lemma seconds_le:
  "(rat_of_int t / 1000 \<le> 1 / 10) = (t \<le> 100)"
  "(rat_of_int t / 1000 \<le> 1 / 2) = (t \<le> 500)"
  "(rat_of_int t / 1000 \<le> 1) = (t \<le> 1000)"
  "(rat_of_int t / 1000 \<le> 2) = (t \<le> 2000)"
  "(rat_of_int t / 1000 \<le> 5) = (t \<le> 5000)"
proof -
  have *: "(rat_of_int t / 1000 \<le> rat_of_int c / 1000) = (t \<le> c)" for c
    by (simp add: divide_le_cancel)
  show "(rat_of_int t / 1000 \<le> 1 / 10) = (t \<le> 100)" using * [of 100] by simp
  show "(rat_of_int t / 1000 \<le> 1 / 2) = (t \<le> 500)" using * [of 500] by simp
  show "(rat_of_int t / 1000 \<le> 1) = (t \<le> 1000)" using * [of 1000] by simp
  show "(rat_of_int t / 1000 \<le> 2) = (t \<le> 2000)" using * [of 2000] by simp
  show "(rat_of_int t / 1000 \<le> 5) = (t \<le> 5000)" using * [of 5000] by simp
qed

lemma bucket_updateMetrics_reachable:
  assumes "reachable e st"
  shows "map (\<lambda>k. bucket k (email_send_duration_seconds (metrics (updateMetrics e ok t st))))
           [''0.1'', ''0.5'', ''1'', ''2'', ''5'']
         = map (\<lambda>(k, c). bucket k (email_send_duration_seconds (metrics st))
                            + (if t \<le> c then 1 else 0))
             [(''0.1'', 100), (''0.5'', 500), (''1'', 1000), (''2'', 2000), (''5'', 5000)]"
proof -
  from reachable_tallyOk [OF assms]
  have keys: "map fst (buckets (email_send_duration_seconds (metrics st))) = bucketKeys"
    by (simp add: tallyOk_def tally_def)
  have mem: "k \<in> fst ` set (buckets (email_send_duration_seconds (metrics st)))"
    if "k \<in> set bucketKeys" for k
    using that keys by (metis list.set_map)
  have pf: "parseFloat ''0.1'' = Some (1 / 10)" "parseFloat ''0.5'' = Some (1 / 2)"
    "parseFloat ''1'' = Some 1" "parseFloat ''2'' = Some 2" "parseFloat ''5'' = Some 5"
    using parseFloat_bucketKeys by (simp_all add: bucketKeys_def)
  have "\<And>k. k \<in> set bucketKeys \<Longrightarrow>
      bucket k (email_send_duration_seconds (metrics (updateMetrics e ok t st)))
      = bucket k (email_send_duration_seconds (metrics st))
        + (if leqFloat (of_int t / 1000) (parseFloat k) then 1 else 0)"
    by (simp add: bucket_updateMetrics mem)
  then show ?thesis
    by (simp add: bucketKeys_def pf leqFloat_def seconds_le)
qed

lemma bucket_updateMetrics_mono:
  assumes "tally s = tally st"
  shows "bucket k (email_send_duration_seconds (metrics st))
         \<le> bucket k (email_send_duration_seconds (metrics (updateMetrics e ok t s)))"
proof -
  from assms have "email_send_duration_seconds (metrics s) = email_send_duration_seconds (metrics st)"
    by (simp add: tally_def)
  then show ?thesis by (simp add: bucket_updateMetrics)
qed

lemma sendMail_bucket_mono:
  "bucket k (email_send_duration_seconds (metrics st))
   \<le> bucket k (email_send_duration_seconds (metrics (snd (sendMail e opts st))))"
proof -
  let ?Q = "\<lambda>t. bucket k (email_send_duration_seconds (metrics st)) \<le> bucket k (snd (snd (snd t)))"
  have 0: "?Q (tally st)" by (simp add: tally_def)
  have step: "?Q (tally (updateMetrics e ok t s))" if "?Q (tally s)" for ok t s
  proof -
    have "bucket k (email_send_duration_seconds (metrics s))
          \<le> bucket k (email_send_duration_seconds (metrics (updateMetrics e ok t s)))"
      by (simp add: bucket_updateMetrics)
    with that show ?thesis by (simp add: tally_def)
  qed
  have "?Q (tally (snd (sendMail e opts st)))"
    using 0 step by (rule sendMail_tally_inv [where Q = ?Q])
  then show ?thesis by (simp add: tally_def)
qed

lemma sendMail_dcount_mono:
  "dcount (email_send_duration_seconds (metrics st))
   \<le> dcount (email_send_duration_seconds (metrics (snd (sendMail e opts st))))"
proof -
  let ?Q = "\<lambda>t. dcount (email_send_duration_seconds (metrics st)) \<le> dcount (snd (snd (snd t)))"
  have 0: "?Q (tally st)" by (simp add: tally_def)
  have step: "?Q (tally (updateMetrics e ok t s))" if "?Q (tally s)" for ok t s
    using that by (simp add: tally_def updateMetrics_def Let_def)
  have "?Q (tally (snd (sendMail e opts st)))"
    using 0 step by (rule sendMail_tally_inv [where Q = ?Q])
  then show ?thesis by (simp add: tally_def)
qed

lemma sends_bucket_mono:
  "bucket k (email_send_duration_seconds (metrics st))
   \<le> bucket k (email_send_duration_seconds
                  (metrics (foldl (\<lambda>s opts. snd (sendMail e opts s)) st sends)))"
proof (induction sends arbitrary: st)
  case Nil
  show ?case by simp
next
  case (Cons opts sends)
  have "bucket k (email_send_duration_seconds (metrics st))
        \<le> bucket k (email_send_duration_seconds (metrics (snd (sendMail e opts st))))"
    by (rule sendMail_bucket_mono)
  also have "\<dots> \<le> bucket k (email_send_duration_seconds
                  (metrics (foldl (\<lambda>s opts. snd (sendMail e opts s)) (snd (sendMail e opts st)) sends)))"
    by (rule Cons.IH)
  finally show ?case by simp
qed

lemma verifyConnection_duration:
  "email_send_duration_seconds (metrics (snd (verifyConnection e st)))
   = email_send_duration_seconds (metrics st)"
proof -
  have "tally (snd (verifyConnection e st)) = tally st"
    by (metis verifyConnection_tally prod.collapse)
  then show ?thesis by (simp add: tally_def)
qed

text \<open>
  C9. The histogram is cumulative: \<open>updateMetrics\<close> with a duration of \<open>t\<close> milliseconds
  increments the bucket of every cutoff \<open>b\<close> with \<open>t / 1000 \<le> b\<close> and leaves the others. No
  bucket decreases over a call of \<open>updateMetrics\<close>, over a call of \<open>sendMail\<close>, whatever its
  outcome, or over any sequence of sends, and \<open>verifyConnection\<close> leaves the histogram as it
  is. In every reachable state the keys are the cutoffs 0.1, 0.5, 1, 2 and 5, the bucket of 5
  is at most \<open>email_send_duration_seconds.count\<close>, and the five buckets are incremented
  exactly when \<open>t\<close> is at most 100, 500, 1000, 2000 and 5000.
\<close>

theorem updateMetrics_histogram:
  "map fst (buckets (email_send_duration_seconds (metrics (updateMetrics e ok t st))))
     = map fst (buckets (email_send_duration_seconds (metrics st)))
   \<and> bucket k (email_send_duration_seconds (metrics (updateMetrics e ok t st)))
     = (if k \<in> fst ` set (buckets (email_send_duration_seconds (metrics st)))
           \<and> leqFloat (of_int t / 1000) (parseFloat k)
        then bucket k (email_send_duration_seconds (metrics st)) + 1
        else bucket k (email_send_duration_seconds (metrics st)))
   \<and> bucket k (email_send_duration_seconds (metrics st))
     \<le> bucket k (email_send_duration_seconds (metrics (updateMetrics e ok t st)))
   \<and> bucket k (email_send_duration_seconds (metrics st))
     \<le> bucket k (email_send_duration_seconds (metrics (snd (sendMail e options st))))
   \<and> bucket k (email_send_duration_seconds (metrics st))
     \<le> bucket k (email_send_duration_seconds
                    (metrics (foldl (\<lambda>s opts. snd (sendMail e opts s)) st sends)))
   \<and> email_send_duration_seconds (metrics (snd (verifyConnection e st)))
     = email_send_duration_seconds (metrics st)
   \<and> dcount (email_send_duration_seconds (metrics (updateMetrics e ok t st)))
     = dcount (email_send_duration_seconds (metrics st)) + 1
   \<and> map parseFloat [''0.1'', ''0.5'', ''1'', ''2'', ''5'']
     = [Some (1 / 10), Some (1 / 2), Some 1, Some 2, Some 5]
   \<and> (reachable e st \<longrightarrow>
        set (map fst (buckets (email_send_duration_seconds (metrics st))))
          = {''0.1'', ''0.5'', ''1'', ''2'', ''5''}
        \<and> distinct (map fst (buckets (email_send_duration_seconds (metrics st))))
        \<and> bucket ''5'' (email_send_duration_seconds (metrics st))
          \<le> dcount (email_send_duration_seconds (metrics st))
        \<and> map (\<lambda>k. bucket k (email_send_duration_seconds
                                (metrics (updateMetrics e ok t st))))
              [''0.1'', ''0.5'', ''1'', ''2'', ''5'']
          = map (\<lambda>(k, c). bucket k (email_send_duration_seconds (metrics st))
                             + (if t \<le> c then 1 else 0))
              [(''0.1'', 100), (''0.5'', 500), (''1'', 1000), (''2'', 2000), (''5'', 5000)])"
proof -
  have "reachable e st \<longrightarrow>
        set (map fst (buckets (email_send_duration_seconds (metrics st))))
          = {''0.1'', ''0.5'', ''1'', ''2'', ''5''}
        \<and> distinct (map fst (buckets (email_send_duration_seconds (metrics st))))
        \<and> bucket ''5'' (email_send_duration_seconds (metrics st))
          \<le> dcount (email_send_duration_seconds (metrics st))
        \<and> map (\<lambda>k. bucket k (email_send_duration_seconds
                                (metrics (updateMetrics e ok t st))))
              [''0.1'', ''0.5'', ''1'', ''2'', ''5'']
          = map (\<lambda>(k, c). bucket k (email_send_duration_seconds (metrics st))
                             + (if t \<le> c then 1 else 0))
              [(''0.1'', 100), (''0.5'', 500), (''1'', 1000), (''2'', 2000), (''5'', 5000)]"
    using reachable_tallyOk [of e st] bucket_updateMetrics_reachable [of e st ok t]
    by (simp add: tallyOk_def tally_def bucketKeys_def)
  moreover have "dcount (email_send_duration_seconds (metrics (updateMetrics e ok t st)))
     = dcount (email_send_duration_seconds (metrics st)) + 1"
    by (simp add: updateMetrics_def Let_def)
  moreover have "bucket k (email_send_duration_seconds (metrics st))
     \<le> bucket k (email_send_duration_seconds (metrics (updateMetrics e ok t st)))"
    by (simp add: bucket_updateMetrics)
  moreover note buckets_keys_updateMetrics [of e ok t st] bucket_updateMetrics [of k e ok t st]
    parseFloat_bucketKeys [unfolded bucketKeys_def]
    sendMail_bucket_mono [of k st e options] sends_bucket_mono [of k st e sends]
    verifyConnection_duration [of e st]
  ultimately show ?thesis by blast
qed

theorem updateMetrics_histogram_witness:
  "reachable exampleEnv exampleMailer
   \<and> map (\<lambda>k. bucket k (email_send_duration_seconds (metrics exampleMailer)))
        [''0.1'', ''0.5'', ''1'', ''2'', ''5''] = [0, 0, 0, 0, 0]
   \<and> map (\<lambda>k. bucket k (email_send_duration_seconds
                          (metrics (updateMetrics exampleEnv True 150 exampleMailer))))
        [''0.1'', ''0.5'', ''1'', ''2'', ''5''] = [0, 1, 1, 1, 1]
   \<and> dcount (email_send_duration_seconds
               (metrics (updateMetrics exampleEnv True 150 exampleMailer))) = 1
   \<and> bucket ''5'' (email_send_duration_seconds (metrics exampleMailer))
     \<le> dcount (email_send_duration_seconds (metrics exampleMailer))"
proof -
  have r: "reachable exampleEnv exampleMailer"
    using exampleMailer_new by (rule reachable.constructed)
  have b0: "buckets (email_send_duration_seconds (metrics exampleMailer))
      = [(''0.1'', 0), (''0.5'', 0), (''1'', 0), (''2'', 0), (''5'', 0)]"
    and c0: "dcount (email_send_duration_seconds (metrics exampleMailer)) = 0"
    by (simp_all add: example_defs Let_def)
  have pf: "parseFloat ''0.1'' = Some (1 / 10)" "parseFloat ''0.5'' = Some (1 / 2)"
    "parseFloat ''1'' = Some 1" "parseFloat ''2'' = Some 2" "parseFloat ''5'' = Some 5"
    using parseFloat_bucketKeys by (simp_all add: bucketKeys_def)
  have h: "\<And>k. bucket k (email_send_duration_seconds
                          (metrics (updateMetrics exampleEnv True 150 exampleMailer)))
     = (if k \<in> fst ` set (buckets (email_send_duration_seconds (metrics exampleMailer)))
           \<and> leqFloat (of_int 150 / 1000) (parseFloat k)
        then bucket k (email_send_duration_seconds (metrics exampleMailer)) + 1
        else bucket k (email_send_duration_seconds (metrics exampleMailer)))"
    and c: "dcount (email_send_duration_seconds
               (metrics (updateMetrics exampleEnv True 150 exampleMailer)))
       = dcount (email_send_duration_seconds (metrics exampleMailer)) + 1"
    and inv: "bucket ''5'' (email_send_duration_seconds (metrics exampleMailer))
          \<le> dcount (email_send_duration_seconds (metrics exampleMailer))"
    using updateMetrics_histogram [of exampleEnv True 150 exampleMailer] r by blast+
  have z: "map (\<lambda>k. bucket k (email_send_duration_seconds (metrics exampleMailer)))
        [''0.1'', ''0.5'', ''1'', ''2'', ''5''] = [0, 0, 0, 0, 0]"
    by (simp add: bucket_def b0)
  have "map (\<lambda>k. bucket k (email_send_duration_seconds
                          (metrics (updateMetrics exampleEnv True 150 exampleMailer))))
        [''0.1'', ''0.5'', ''1'', ''2'', ''5''] = [0, 1, 1, 1, 1]"
    by (simp only: h list.map) (simp add: b0 pf leqFloat_def bucket_def)
  with r z c c0 inv show ?thesis by simp
qed


subsection \<open>Addresses that pass the validator\<close>







subsection \<open>C1: a send to an invalid address\<close>

lemma find_invalid:
  assumes "r \<in> set rs" "\<not> validateEmail r"
  obtains r' where "find (\<lambda>r. \<not> validateEmail r) rs = Some r'" "r' \<in> set rs" "\<not> validateEmail r'"
proof (cases "find (\<lambda>r. \<not> validateEmail r) rs")
  case None
  with assms show ?thesis by (auto simp: find_None_iff)
next
  case (Some r')
  then have "r' \<in> set rs" "\<not> validateEmail r'"
    by (auto simp: find_Some_iff in_set_conv_nth)
  with Some that show ?thesis by blast
qed

lemma writeLog_sockets [simp]:
  "socketsOpened (writeLog e lvl data st) = socketsOpened st"
  "socketsEnded (writeLog e lvl data st) = socketsEnded st"
  "commandsSent (writeLog e lvl data st) = commandsSent st"
  by (simp_all add: writeLog_def Let_def)

text \<open>
  C1, amended. When the recipient list of a \<open>sendMail\<close> call holds an address that the
  validator rejects, \<open>emails_total\<close> is unchanged, exactly one socket is opened, the probe of
  \<open>verifyConnection\<close> that \<open>sendMail\<close> runs first, and no command is written. If the probe
  connects, it is ended and the call rejects with code \<open>EINVALIDEMAIL\<close> and type
  \<open>validation_error\<close> for a rejected address; if it does not, the call rejects with the
  \<open>ECONNECTION\<close> error of a failed probe.
\<close>

theorem sendMail_invalid_recipient:
  assumes "r \<in> set (recipientsOf options)" and "\<not> validateEmail r"
  shows "emails_total (metrics (snd (sendMail e options st))) = emails_total (metrics st)
    \<and> socketsOpened (snd (sendMail e options st)) = socketsOpened st + 1
    \<and> commandsSent (snd (sendMail e options st)) = commandsSent st
    \<and> (if connects e (socketsOpened st) = Connected
        then socketsEnded (snd (sendMail e options st)) = socketsEnded st + 1
             \<and> (\<exists>r'. r' \<in> set (recipientsOf options) \<and> \<not> validateEmail r'
                      \<and> fst (sendMail e options st) = Failed (invalidEmailError r')
                      \<and> code (invalidEmailError r') = ''EINVALIDEMAIL''
                      \<and> etype (invalidEmailError r') = ''validation_error'')
        else socketsEnded (snd (sendMail e options st)) = socketsEnded st
             \<and> fst (sendMail e options st) = Failed (connectionFailedError (config st)))"
proof -
  from assms obtain r' where
    f: "find (\<lambda>r. \<not> validateEmail r) (recipientsOf options) = Some r'"
    and r': "r' \<in> set (recipientsOf options)" "\<not> validateEmail r'"
    by (rule find_invalid)
  show ?thesis
  proof (cases "connects e (socketsOpened st)")
    case Connected
    with f r' show ?thesis
      by (auto simp: sendMail_def verifyConnection_def createConnection_def Let_def bump_def
          invalidEmailError_def)
  next
    case TimedOut
    then show ?thesis
      by (simp add: sendMail_def verifyConnection_def createConnection_def Let_def bump_def)
  next
    case (ConnError c msg)
    then show ?thesis
      by (simp add: sendMail_def verifyConnection_def createConnection_def Let_def bump_def)
  qed
qed


lemma invalidMail_recipients: "recipientsOf invalidMail = [''notanemail'']"
  by (simp add: recipientsOf_def optList_def invalidMail_def)

lemma notanemail_invalid: "\<not> validateEmail ''notanemail''"
  by (simp add: validateEmail_unfold)

theorem sendMail_invalid_recipient_witness:
  "''notanemail'' \<in> set (recipientsOf invalidMail) \<and> \<not> validateEmail ''notanemail''
   \<and> connects exampleEnv (socketsOpened exampleMailer) = Connected
   \<and> emails_total (metrics (snd (sendMail exampleEnv invalidMail exampleMailer))) = 0
   \<and> socketsOpened (snd (sendMail exampleEnv invalidMail exampleMailer)) = 1
   \<and> socketsEnded (snd (sendMail exampleEnv invalidMail exampleMailer)) = 1
   \<and> commandsSent (snd (sendMail exampleEnv invalidMail exampleMailer)) = 0
   \<and> fst (sendMail exampleEnv invalidMail exampleMailer)
       = Failed (invalidEmailError ''notanemail'')"
proof -
  have m: "''notanemail'' \<in> set (recipientsOf invalidMail)"
    by (simp add: invalidMail_recipients)
  have c: "connects exampleEnv (socketsOpened exampleMailer) = Connected"
    by (simp add: example_defs Let_def)
  have z: "emails_total (metrics exampleMailer) = 0" "socketsOpened exampleMailer = 0"
    "socketsEnded exampleMailer = 0" "commandsSent exampleMailer = 0"
    by (simp_all add: example_defs Let_def)
  from sendMail_invalid_recipient [OF m notanemail_invalid, of exampleEnv exampleMailer] c z m
  show ?thesis
    by (auto simp: notanemail_invalid invalidMail_recipients)
qed

text \<open>
  C1 as stated fails: on a fresh mailer whose connections succeed, the send to \<open>notanemail\<close>
  is rejected with \<open>EINVALIDEMAIL\<close> after a socket was opened (and counted in
  \<open>active_connections\<close>); on one whose connections fail, it is rejected with \<open>ECONNECTION\<close>.
\<close>

theorem sendMail_invalid_recipient_probe:
  "recipientsOf invalidMail = [''notanemail''] \<and> validateEmail ''notanemail'' = False
   \<and> socketsOpened exampleMailer = 0
   \<and> socketsOpened (snd (sendMail exampleEnv invalidMail exampleMailer)) = 1
   \<and> active_connections (metrics (snd (sendMail exampleEnv invalidMail exampleMailer))) = 1
   \<and> map_option code (rejection (fst (sendMail exampleEnv invalidMail exampleMailer)))
       = Some ''EINVALIDEMAIL''
   \<and> map_option code (rejection (fst (sendMail offlineEnv invalidMail offlineMailer)))
       = Some ''ECONNECTION''"
proof -
  have 1: "socketsOpened (snd (sendMail exampleEnv invalidMail exampleMailer)) = 1"
    and 2: "active_connections (metrics (snd (sendMail exampleEnv invalidMail exampleMailer))) = 1"
    and 3: "map_option code (rejection (fst (sendMail exampleEnv invalidMail exampleMailer)))
       = Some ''EINVALIDEMAIL''"
    by (simp_all add: sendMail_def verifyConnection_def createConnection_def writeLog_def
        invalidMail_recipients notanemail_invalid rejection_def invalidEmailError_def bump_def
        example_defs js_defs Let_def)
  have 4: "map_option code (rejection (fst (sendMail offlineEnv invalidMail offlineMailer)))
       = Some ''ECONNECTION''"
    by (simp add: sendMail_def verifyConnection_def createConnection_def writeLog_def
        rejection_def connectionFailedError_def bump_def example_defs js_defs Let_def)
  have 0: "socketsOpened exampleMailer = 0" by (simp add: example_defs Let_def)
  from invalidMail_recipients notanemail_invalid 0 1 2 3 4 show ?thesis by simp
qed


subsection \<open>C2: the header values of the composed message\<close>






lemma writeLog_wire [simp]: "wire (writeLog e lvl data st) = wire st"
  by (simp add: writeLog_def Let_def)






subsection \<open>Further facts about the model\<close>

text \<open>
  \<open>lastAttempt\<close> after any call of \<open>checkRateLimit\<close>: the time of the call, except when the
  call throws for too many rapid attempts, where it is what it was.
\<close>

lemma checkRateLimit_lastAttempt:
  "map_option lastAttempt (rateLimits (snd (checkRateLimit e now recipient st)) recipient)
   = (let l0 = (case rateLimits st recipient of Some l \<Rightarrow> l | None \<Rightarrow> newLimits now) in
      if now - lastAttempt l0 < numOr (rapidPeriod (rateLimiting (config st))) 10000
         \<and> numOr (maxRapidAttempts (rateLimiting (config st))) 10 \<le> rapidAttempts l0 + 1
      then Some (lastAttempt l0) else Some now)"
  by (simp add: checkRateLimit_def Let_def putLimits_def)

text \<open>The commands of the example send, on a secure connection.\<close>

lemma dialogue_example:
  "dialogue exampleEnv (config exampleMailer) [''a@b.co'']
   = [(''EHLO'', ''EHLO smtp.example.com''), (''AUTH'', ''AUTH LOGIN''), (''AUTH'', ''user''),
      (''AUTH'', ''secret''), (''MAIL FROM'', ''MAIL FROM:<user@example.com>''),
      (''RCPT TO'', ''RCPT TO:<a@b.co>''), (''DATA'', ''DATA'')]"
  by (simp add: dialogue_def example_defs js_defs Let_def)


end
